theory Spec2Isabelle
  imports Main "HOL-Library.Word" "HOL-Library.Sublist"
begin

section \<open>Data model (generate-stats-card.go, lines 18-66)\<close>

text \<open>
  Go's \<^verbatim>\<open>int\<close> is a 64-bit two's complement integer on the platforms the program is
  built for (README: Go 1.23, amd64/arm64). Addition wraps around silently.
\<close>

type_synonym go_int = "64 word"

definition githubAPIURL :: string where
  "githubAPIURL = ''https://api.github.com/graphql''"

definition defaultUsername :: string where
  "defaultUsername = ''gangwgr''"

definition defaultOutputDir :: string where
  "defaultOutputDir = ''output''"

record Config =
  Username :: string
  Token :: string
  OutputDir :: string
  OutputFile :: string
  Verbose :: bool

text \<open>
  The anonymous nested structs of \<^verbatim>\<open>GitHubResponse\<close> get one record each, named after
  the field that holds them.
\<close>

record GitHubResponse_ContributionCalendar =
  TotalContributions :: go_int

record GitHubResponse_ContributionsCollection =
  TotalCommitContributions :: go_int
  TotalIssueContributions :: go_int
  TotalPullRequestContributions :: go_int
  ContributionCalendar :: GitHubResponse_ContributionCalendar

record GitHubResponse_RepositoriesContributedTo =
  TotalCount :: go_int

record GitHubResponse_Node =
  StargazerCount :: go_int

record GitHubResponse_Repositories =
  Nodes :: "GitHubResponse_Node list"

record GitHubResponse_User =
  ContributionsCollection :: GitHubResponse_ContributionsCollection
  RepositoriesContributedTo :: GitHubResponse_RepositoriesContributedTo
  Repositories :: GitHubResponse_Repositories

record GitHubResponse_Data =
  User :: GitHubResponse_User

record GitHubResponse_Error =
  Message :: string
  Type :: string

record GitHubResponse =
  Data :: GitHubResponse_Data
  Errors :: "GitHubResponse_Error list"

record StatsCard =
  TotalStars :: go_int
  TotalCommits :: go_int
  TotalPRs :: go_int
  TotalIssues :: go_int
  ContributedTo :: go_int
  TotalContributions :: go_int

text \<open>The zero value of \<^verbatim>\<open>var result GitHubResponse\<close> (line 222).\<close>

definition zero_Node :: GitHubResponse_Node where
  "zero_Node = \<lparr>StargazerCount = 0\<rparr>"

definition zero_Error :: GitHubResponse_Error where
  "zero_Error = \<lparr>Message = [], Type = []\<rparr>"

definition zero_GitHubResponse :: GitHubResponse where
  "zero_GitHubResponse =
     \<lparr>Data = \<lparr>User = \<lparr>
        ContributionsCollection = \<lparr>
          TotalCommitContributions = 0,
          TotalIssueContributions = 0,
          TotalPullRequestContributions = 0,
          ContributionCalendar =
            \<lparr>GitHubResponse_ContributionCalendar.TotalContributions = 0\<rparr>\<rparr>,
        RepositoriesContributedTo = \<lparr>TotalCount = 0\<rparr>,
        Repositories = \<lparr>Nodes = []\<rparr>\<rparr>\<rparr>,
      Errors = []\<rparr>"

section \<open>Bytes and decimal numbers\<close>

definition isDigit :: "char \<Rightarrow> bool" where
  "isDigit c = (c \<in> set ''0123456789'')"

definition digitVal :: "char \<Rightarrow> nat" where
  "digitVal c = (case map_of (zip ''0123456789'' [0, 1, 2, 3, 4, 5, 6, 7, 8, 9]) c of None \<Rightarrow> 0 | Some d \<Rightarrow> d)"

definition isLower :: "char \<Rightarrow> bool" where
  "isLower c = (c \<in> set ''abcdefghijklmnopqrstuvwxyz'')"

definition isUpper :: "char \<Rightarrow> bool" where
  "isUpper c = (c \<in> set ''ABCDEFGHIJKLMNOPQRSTUVWXYZ'')"

definition toUpper :: "char \<Rightarrow> char" where
  "toUpper c =
     (case map_of (zip ''abcdefghijklmnopqrstuvwxyz'' ''ABCDEFGHIJKLMNOPQRSTUVWXYZ'') c of
        None \<Rightarrow> c
      | Some u \<Rightarrow> u)"

definition toLower :: "char \<Rightarrow> char" where
  "toLower c =
     (case map_of (zip ''ABCDEFGHIJKLMNOPQRSTUVWXYZ'' ''abcdefghijklmnopqrstuvwxyz'') c of
        None \<Rightarrow> c
      | Some l \<Rightarrow> l)"

text \<open>
  \<^verbatim>\<open>strconv.ParseInt(s, 10, 64)\<close>, which \<^verbatim>\<open>encoding/json\<close> applies to a number literal
  that is decoded into an \<^verbatim>\<open>int\<close>: an optional sign, then decimal digits only, and the
  value has to fit into 64 bits. \<open>None\<close> is the library's error return.
\<close>

definition ParseInt :: "string \<Rightarrow> int option" where
  "ParseInt s =
     (let neg = (s \<noteq> [] \<and> hd s = CHR ''-'');
          ds = (if s \<noteq> [] \<and> (hd s = CHR ''-'' \<or> hd s = CHR ''+'') then tl s else s)
      in if ds = [] \<or> \<not> list_all isDigit ds then None
         else let n = int (foldl (\<lambda>a d. 10 * a + digitVal d) 0 ds);
                  v = (if neg then - n else n)
              in if - (2 ^ 63) \<le> v \<and> v < 2 ^ 63 then Some v else None)"

section \<open>The fragment of encoding/json that GitHubResponse uses\<close>

text \<open>
  The response body is decoded by the standard library. Its lexical layer (is the
  text JSON, and which value does it denote) is a parameter \<open>parse\<close> of the model;
  \<open>None\<close> stands for a syntax error. What \<^verbatim>\<open>json.Unmarshal\<close> then does with the value
  is written out below for the Go types that occur in \<^verbatim>\<open>GitHubResponse\<close>:
  \<^item> \<^verbatim>\<open>null\<close> leaves an int, string or struct as it is and makes a slice nil;
  \<^item> a number literal goes into an int through \<open>ParseInt\<close>;
  \<^item> an object goes into a struct key by key, in order; a key selects the field whose
    name it equals after case folding, and a key that selects no field is skipped;
  \<^item> an array goes into a slice element by element, each one starting from zero;
  \<^item> every other combination is an \<^verbatim>\<open>UnmarshalTypeError\<close>.
  A number literal is kept as its text, since \<^verbatim>\<open>1.0\<close> and \<^verbatim>\<open>1e2\<close> are numbers that
  do not decode into an int.
\<close>

datatype json =
    JNull
  | JBool bool
  | JNumber string
  | JString string
  | JArray "json list"
  | JObject "(string \<times> json) list"

datatype json_error = SyntaxError | UnmarshalTypeError

text \<open>
  \<^verbatim>\<open>foldName\<close> of encoding/json: ASCII letters are upper-cased; the two non-ASCII
  runes whose case orbit contains an ASCII letter, U+017F (bytes C5 BF) and U+212A
  (bytes E2 84 AA), become \<^verbatim>\<open>S\<close> and \<^verbatim>\<open>K\<close>. Every other rune folds to a non-ASCII
  rune and is left as it is here: it cannot match a field name, all of which are ASCII.
\<close>

fun foldName :: "string \<Rightarrow> string" where
  "foldName [] = []"
| "foldName (c # cs) =
     (if c = CHR 0xC5 \<and> take 1 cs = [CHR 0xBF] then CHR ''S'' # foldName (drop 1 cs)
      else if c = CHR 0xE2 \<and> take 2 cs = [CHR 0x84, CHR 0xAA] then CHR ''K'' # foldName (drop 2 cs)
      else toUpper c # foldName cs)"

fun decode_fields ::
  "(string \<Rightarrow> json \<Rightarrow> 'a \<Rightarrow> json_error + 'a) \<Rightarrow> (string \<times> json) list \<Rightarrow> 'a \<Rightarrow> json_error + 'a"
where
  "decode_fields field [] v = Inr v"
| "decode_fields field ((k, j) # kvs) v =
     (case field (foldName k) j v of
        Inl e \<Rightarrow> Inl e
      | Inr v' \<Rightarrow> decode_fields field kvs v')"

definition decode_struct ::
  "(string \<Rightarrow> json \<Rightarrow> 'a \<Rightarrow> json_error + 'a) \<Rightarrow> json \<Rightarrow> 'a \<Rightarrow> json_error + 'a"
where
  "decode_struct field j v =
     (case j of
        JNull \<Rightarrow> Inr v
      | JObject kvs \<Rightarrow> decode_fields field kvs v
      | _ \<Rightarrow> Inl UnmarshalTypeError)"

fun decode_elems :: "(json \<Rightarrow> json_error + 'a) \<Rightarrow> json list \<Rightarrow> json_error + 'a list" where
  "decode_elems elem [] = Inr []"
| "decode_elems elem (j # js) =
     (case elem j of
        Inl e \<Rightarrow> Inl e
      | Inr x \<Rightarrow> (case decode_elems elem js of Inl e \<Rightarrow> Inl e | Inr xs \<Rightarrow> Inr (x # xs)))"

definition decode_slice :: "(json \<Rightarrow> json_error + 'a) \<Rightarrow> json \<Rightarrow> json_error + 'a list" where
  "decode_slice elem j =
     (case j of
        JNull \<Rightarrow> Inr []
      | JArray js \<Rightarrow> decode_elems elem js
      | _ \<Rightarrow> Inl UnmarshalTypeError)"

definition decode_int :: "json \<Rightarrow> go_int \<Rightarrow> json_error + go_int" where
  "decode_int j v =
     (case j of
        JNull \<Rightarrow> Inr v
      | JNumber lit \<Rightarrow> (case ParseInt lit of None \<Rightarrow> Inl UnmarshalTypeError | Some n \<Rightarrow> Inr (word_of_int n))
      | _ \<Rightarrow> Inl UnmarshalTypeError)"

definition decode_string :: "json \<Rightarrow> string \<Rightarrow> json_error + string" where
  "decode_string j v =
     (case j of
        JNull \<Rightarrow> Inr v
      | JString s \<Rightarrow> Inr s
      | _ \<Rightarrow> Inl UnmarshalTypeError)"

text \<open>Storing a decoded value into a field, or passing the error on.\<close>

definition store :: "('b \<Rightarrow> 'a) \<Rightarrow> json_error + 'b \<Rightarrow> json_error + 'a" where
  "store upd r = (case r of Inl e \<Rightarrow> Inl e | Inr x \<Rightarrow> Inr (upd x))"

definition field_ContributionCalendar ::
  "string \<Rightarrow> json \<Rightarrow> GitHubResponse_ContributionCalendar \<Rightarrow> json_error + GitHubResponse_ContributionCalendar"
where
  "field_ContributionCalendar k j v =
     (if k = foldName ''totalContributions''
      then store (\<lambda>x. v\<lparr>GitHubResponse_ContributionCalendar.TotalContributions := x\<rparr>)
             (decode_int j (GitHubResponse_ContributionCalendar.TotalContributions v))
      else Inr v)"

definition field_ContributionsCollection ::
  "string \<Rightarrow> json \<Rightarrow> GitHubResponse_ContributionsCollection \<Rightarrow> json_error + GitHubResponse_ContributionsCollection"
where
  "field_ContributionsCollection k j v =
     (if k = foldName ''totalCommitContributions''
      then store (\<lambda>x. v\<lparr>TotalCommitContributions := x\<rparr>) (decode_int j (TotalCommitContributions v))
      else if k = foldName ''totalIssueContributions''
      then store (\<lambda>x. v\<lparr>TotalIssueContributions := x\<rparr>) (decode_int j (TotalIssueContributions v))
      else if k = foldName ''totalPullRequestContributions''
      then store (\<lambda>x. v\<lparr>TotalPullRequestContributions := x\<rparr>)
             (decode_int j (TotalPullRequestContributions v))
      else if k = foldName ''contributionCalendar''
      then store (\<lambda>x. v\<lparr>ContributionCalendar := x\<rparr>)
             (decode_struct field_ContributionCalendar j (ContributionCalendar v))
      else Inr v)"

definition field_RepositoriesContributedTo ::
  "string \<Rightarrow> json \<Rightarrow> GitHubResponse_RepositoriesContributedTo \<Rightarrow> json_error + GitHubResponse_RepositoriesContributedTo"
where
  "field_RepositoriesContributedTo k j v =
     (if k = foldName ''totalCount''
      then store (\<lambda>x. v\<lparr>TotalCount := x\<rparr>) (decode_int j (TotalCount v))
      else Inr v)"

definition field_Node :: "string \<Rightarrow> json \<Rightarrow> GitHubResponse_Node \<Rightarrow> json_error + GitHubResponse_Node" where
  "field_Node k j v =
     (if k = foldName ''stargazerCount''
      then store (\<lambda>x. v\<lparr>StargazerCount := x\<rparr>) (decode_int j (StargazerCount v))
      else Inr v)"

definition field_Repositories ::
  "string \<Rightarrow> json \<Rightarrow> GitHubResponse_Repositories \<Rightarrow> json_error + GitHubResponse_Repositories"
where
  "field_Repositories k j v =
     (if k = foldName ''nodes''
      then store (\<lambda>x. v\<lparr>Nodes := x\<rparr>) (decode_slice (\<lambda>e. decode_struct field_Node e zero_Node) j)
      else Inr v)"

definition field_User :: "string \<Rightarrow> json \<Rightarrow> GitHubResponse_User \<Rightarrow> json_error + GitHubResponse_User" where
  "field_User k j v =
     (if k = foldName ''contributionsCollection''
      then store (\<lambda>x. v\<lparr>ContributionsCollection := x\<rparr>)
             (decode_struct field_ContributionsCollection j (ContributionsCollection v))
      else if k = foldName ''repositoriesContributedTo''
      then store (\<lambda>x. v\<lparr>RepositoriesContributedTo := x\<rparr>)
             (decode_struct field_RepositoriesContributedTo j (RepositoriesContributedTo v))
      else if k = foldName ''repositories''
      then store (\<lambda>x. v\<lparr>Repositories := x\<rparr>)
             (decode_struct field_Repositories j (Repositories v))
      else Inr v)"

definition field_Data :: "string \<Rightarrow> json \<Rightarrow> GitHubResponse_Data \<Rightarrow> json_error + GitHubResponse_Data" where
  "field_Data k j v =
     (if k = foldName ''user''
      then store (\<lambda>x. v\<lparr>User := x\<rparr>) (decode_struct field_User j (User v))
      else Inr v)"

definition field_Error :: "string \<Rightarrow> json \<Rightarrow> GitHubResponse_Error \<Rightarrow> json_error + GitHubResponse_Error" where
  "field_Error k j v =
     (if k = foldName ''message''
      then store (\<lambda>x. v\<lparr>Message := x\<rparr>) (decode_string j (Message v))
      else if k = foldName ''type''
      then store (\<lambda>x. v\<lparr>Type := x\<rparr>) (decode_string j (Type v))
      else Inr v)"

definition field_GitHubResponse :: "string \<Rightarrow> json \<Rightarrow> GitHubResponse \<Rightarrow> json_error + GitHubResponse" where
  "field_GitHubResponse k j v =
     (if k = foldName ''data''
      then store (\<lambda>x. v\<lparr>Data := x\<rparr>) (decode_struct field_Data j (Data v))
      else if k = foldName ''errors''
      then store (\<lambda>x. v\<lparr>Errors := x\<rparr>) (decode_slice (\<lambda>e. decode_struct field_Error e zero_Error) j)
      else Inr v)"

text \<open>\<^verbatim>\<open>json.Unmarshal(respBody, &result)\<close> with \<^verbatim>\<open>result\<close> the zero value (lines 222-223).\<close>

definition Unmarshal :: "(string \<Rightarrow> json option) \<Rightarrow> string \<Rightarrow> json_error + GitHubResponse" where
  "Unmarshal parse body =
     (case parse body of
        None \<Rightarrow> Inl SyntaxError
      | Some j \<Rightarrow> decode_struct field_GitHubResponse j zero_GitHubResponse)"

section \<open>The HTTP round trip (lines 186-210)\<close>

text \<open>
  The request that \<^verbatim>\<open>fetchStats\<close> builds. \<open>Query\<close> is the value under the key
  \<^verbatim>\<open>query\<close> of the JSON body; \<open>query_text\<close> is the result of the \<^verbatim>\<open>Sprintf\<close> of line 165,
  whose format has the single verb \<^verbatim>\<open>%s\<close>.
\<close>

record http_request =
  Method :: string
  URL :: string
  Authorization :: string
  ContentType :: string
  Query :: string

definition query_text :: "string \<Rightarrow> string" where
  \<open>query_text username = ''{
		user(login: "'' @ username @ ''") {
			contributionsCollection {
				totalCommitContributions
				totalIssueContributions
				totalPullRequestContributions
				contributionCalendar {
					totalContributions
				}
			}
			repositoriesContributedTo(first: 1, contributionTypes: [COMMIT, ISSUE, PULL_REQUEST]) {
				totalCount
			}
			repositories(first: 100, ownerAffiliations: OWNER) {
				nodes {
					stargazerCount
				}
			}
		}
	}''\<close>

definition build_request :: "Config \<Rightarrow> http_request" where
  "build_request config =
     \<lparr>Method = ''POST'', URL = githubAPIURL,
      Authorization = ''Bearer '' @ Token config,
      ContentType = ''application/json'',
      Query = query_text (Username config)\<rparr>"

text \<open>
  \<^verbatim>\<open>http.Header\<close> is a map from canonical keys to value lists; \<^verbatim>\<open>Get\<close> canonicalises
  the key and returns the first value, or the empty string.
\<close>

type_synonym Header = "string \<Rightarrow> string list option"

definition validHeaderFieldByte :: "char \<Rightarrow> bool" where
  "validHeaderFieldByte c =
     (isDigit c \<or> isLower c \<or> isUpper c \<or> c \<in> set ''!#$%&*+-.^_`|~'' \<or> c = CHR 0x27)"

fun canonical :: "bool \<Rightarrow> string \<Rightarrow> string" where
  "canonical upper [] = []"
| "canonical upper (c # cs) =
     (if upper then toUpper c else toLower c) # canonical (c = CHR ''-'') cs"

definition CanonicalMIMEHeaderKey :: "string \<Rightarrow> string" where
  "CanonicalMIMEHeaderKey k = (if list_all validHeaderFieldByte k then canonical True k else k)"

definition Header_Get :: "Header \<Rightarrow> string \<Rightarrow> string" where
  "Header_Get h key =
     (case h (CanonicalMIMEHeaderKey key) of
        None \<Rightarrow> []
      | Some [] \<Rightarrow> []
      | Some (v # _) \<Rightarrow> v)"

record http_response =
  StatusCode :: int
  Header :: Header
  Body :: string

text \<open>
  What \<^verbatim>\<open>client.Do\<close> followed by \<^verbatim>\<open>io.ReadAll\<close> can come back with: an error from
  either, carrying the library's message, or a response whose body has been read.
\<close>

datatype round_trip =
    DoFailed string
  | ReadFailed string
  | Completed http_response

section \<open>fetchStats (lines 164-245)\<close>

text \<open>
  One constructor for each \<^verbatim>\<open>fmt.Errorf\<close> of the program, holding the operands of its
  format string:
  \<^item> \<open>MarshalQuery\<close>: \<^verbatim>\<open>marshal query: %w\<close> (line 189);
  \<^item> \<open>CreateRequest\<close>: \<^verbatim>\<open>create request: %w\<close> (line 194);
  \<^item> \<open>ExecuteRequest\<close>: \<^verbatim>\<open>execute request: %w\<close> (line 203);
  \<^item> \<open>ReadResponse\<close>: \<^verbatim>\<open>read response: %w\<close> (line 209);
  \<^item> \<open>UnexpectedStatus\<close>: \<^verbatim>\<open>unexpected status code: %d, body: %s\<close> (line 213);
  \<^item> \<open>RateLimitExceeded\<close>: \<^verbatim>\<open>rate limit exceeded, resets at: %s\<close> (line 219);
  \<^item> \<open>UnmarshalResponse\<close>: \<^verbatim>\<open>unmarshal response: %w\<close> (line 224);
  \<^item> \<open>GraphQLErrors\<close>: \<^verbatim>\<open>GraphQL errors: %v\<close> (line 229);
  \<^item> \<open>FailedAfterRetries\<close>: \<^verbatim>\<open>failed after retries: %w\<close> (line 158).

  \<open>ContextError\<close> is the value of \<^verbatim>\<open>ctx.Err()\<close> that \<^verbatim>\<open>backoff.Retry\<close> returns when the
  context of its policy is done.
\<close>

datatype error =
    MarshalQuery string
  | CreateRequest string
  | ExecuteRequest string
  | ReadResponse string
  | UnexpectedStatus int string
  | RateLimitExceeded string
  | UnmarshalResponse json_error
  | GraphQLErrors "GitHubResponse_Error list"
  | FailedAfterRetries error
  | ContextError string

text \<open>
  \<^verbatim>\<open>json.Marshal\<close> of a \<^verbatim>\<open>map[string]string\<close> and \<^verbatim>\<open>http.NewRequestWithContext\<close> with
  a non-nil context, the method \<^verbatim>\<open>POST\<close> and the constant URL have no error return that
  can be taken; the two branches are kept as the source has them.
\<close>

definition json_Marshal :: "string \<Rightarrow> string + string" where
  "json_Marshal query = Inr query"

definition NewRequestWithContext :: "Config \<Rightarrow> string + http_request" where
  "NewRequestWithContext config = Inr (build_request config)"

text \<open>The loop of lines 232-235.\<close>

fun totalStars :: "GitHubResponse_Node list \<Rightarrow> go_int \<Rightarrow> go_int" where
  "totalStars [] acc = acc"
| "totalStars (repo # repos) acc = totalStars repos (acc + StargazerCount repo)"

text \<open>Lines 232-244: the reduction of the decoded payload to the card.\<close>

definition statsCard :: "GitHubResponse \<Rightarrow> StatsCard" where
  "statsCard result =
     \<lparr>TotalStars = totalStars (Nodes (Repositories (User (Data result)))) 0,
      TotalCommits = TotalCommitContributions (ContributionsCollection (User (Data result))),
      TotalPRs = TotalPullRequestContributions (ContributionsCollection (User (Data result))),
      TotalIssues = TotalIssueContributions (ContributionsCollection (User (Data result))),
      ContributedTo = TotalCount (RepositoriesContributedTo (User (Data result))),
      TotalContributions =
        GitHubResponse_ContributionCalendar.TotalContributions
          (ContributionCalendar (ContributionsCollection (User (Data result))))\<rparr>"

text \<open>
  \<open>Do\<close> is the round trip as it ends for this call (the context and the client's
  timeout are inside it); \<open>parse\<close> is the JSON reader.
\<close>

definition fetchStats ::
  "(string \<Rightarrow> json option) \<Rightarrow> (http_request \<Rightarrow> round_trip) \<Rightarrow> Config \<Rightarrow> error + StatsCard"
where
  "fetchStats parse Do config =
     (case json_Marshal (query_text (Username config)) of
        Inl e \<Rightarrow> Inl (MarshalQuery e)
      | Inr body \<Rightarrow>
     (case NewRequestWithContext config of
        Inl e \<Rightarrow> Inl (CreateRequest e)
      | Inr req \<Rightarrow>
     (case Do req of
        DoFailed e \<Rightarrow> Inl (ExecuteRequest e)
      | ReadFailed e \<Rightarrow> Inl (ReadResponse e)
      | Completed resp \<Rightarrow>
          if StatusCode resp \<noteq> 200
          then Inl (UnexpectedStatus (StatusCode resp) (Body resp))
          else if Header_Get (Header resp) ''X-RateLimit-Remaining'' = ''0''
          then Inl (RateLimitExceeded (Header_Get (Header resp) ''X-RateLimit-Reset''))
          else (case Unmarshal parse (Body resp) of
                  Inl e \<Rightarrow> Inl (UnmarshalResponse e)
                | Inr result \<Rightarrow>
                    if length (Errors result) > 0
                    then Inl (GraphQLErrors (Errors result))
                    else Inr (statsCard result)))))"

section \<open>generateStatsCardSVG (lines 247-334)\<close>

text \<open>
  The verb \<^verbatim>\<open>%d\<close> of package fmt on an \<^verbatim>\<open>int\<close>: a minus sign for a negative value, then
  the decimal digits of its magnitude.
\<close>

definition digitChar :: "nat \<Rightarrow> char" where
  "digitChar n = ''0123456789'' ! n"

fun digits :: "nat \<Rightarrow> string" where
  "digits n = (if n < 10 then [digitChar n] else digits (n div 10) @ [digitChar (n mod 10)])"

declare digits.simps [simp del]

definition fmt_d :: "go_int \<Rightarrow> string" where
  "fmt_d v = (if sint v < 0 then CHR ''-'' # digits (nat (- sint v)) else digits (nat (sint v)))"

text \<open>
  \<^verbatim>\<open>fmt.Sprintf\<close> on \<^verbatim>\<open>int\<close> operands, for formats made of plain bytes, \<^verbatim>\<open>%%\<close> and \<^verbatim>\<open>%d\<close>.
  \<open>None\<close> says that the call leaves this fragment: another verb, a \<^verbatim>\<open>%\<close> at the end, or
  operands that do not match the verbs one to one (fmt prints a \<^verbatim>\<open>%!\<close> diagnostic into
  the result in those cases).
\<close>

fun Sprintf :: "string \<Rightarrow> go_int list \<Rightarrow> string option" where
  "Sprintf [] args = (if args = [] then Some [] else None)"
| "Sprintf [c] args = (if c = CHR ''%'' \<or> args \<noteq> [] then None else Some [c])"
| "Sprintf (c # v # fs) args =
     (if c \<noteq> CHR ''%'' then map_option ((#) c) (Sprintf (v # fs) args)
      else if v = CHR ''%'' then map_option ((#) CHR ''%'') (Sprintf fs args)
      else if v = CHR ''d'' then
        (case args of
           [] \<Rightarrow> None
         | a # as \<Rightarrow> map_option ((@) (fmt_d a)) (Sprintf fs as))
      else None)"

text \<open>The format string of line 248, byte for byte.\<close>

definition svg_format :: string where
  \<open>svg_format = ''<svg width="600" height="150" viewBox="0 0 600 150" fill="none" xmlns="http://www.w3.org/2000/svg" role="img" aria-labelledby="descId">
  <title id="titleId">GitHub Stats Card</title>
  <desc id="descId">GitHub statistics for user contributions</desc>

  <style>
    .header { font: 600 18px 'Segoe UI', Ubuntu, Sans-Serif; fill: #2f80ed; }
    .stat { font: 600 14px 'Segoe UI', Ubuntu, Sans-Serif; fill: #434d58; }
    .statlabel { font: 400 12px 'Segoe UI', Ubuntu, Sans-Serif; fill: #586069; }
    .icon { fill: #586069; }
    .card-bg { fill: #fffefe; }
    .card-border { stroke: #e4e2e2; }

    @media (prefers-color-scheme: dark) {
      .stat { fill: #e1e4e8; }
      .statlabel { fill: #8b949e; }
      .icon { fill: #8b949e; }
      .card-bg { fill: #0d1117; }
      .card-border { stroke: #30363d; }
    }
  </style>

  <rect class="card-bg" x="0.5" y="0.5" rx="4.5" height="99%%" width="599" class="card-border" stroke-width="1" stroke-opacity="1"/>

  <g transform="translate(25, 30)">
    <!-- Total Stars -->
    <g transform="translate(0, 0)">
      <svg y="-2" viewBox="0 0 16 16" version="1.1" width="16" height="16">
        <path fill="#FFD700" fill-rule="evenodd" d="M8 .25a.75.75 0 01.673.418l1.882 3.815 4.21.612a.75.75 0 01.416 1.279l-3.046 2.97.719 4.192a.75.75 0 01-1.088.791L8 12.347l-3.766 1.98a.75.75 0 01-1.088-.79l.72-4.194L.818 6.374a.75.75 0 01.416-1.28l4.21-.611L7.327.668A.75.75 0 018 .25z"/>
      </svg>
      <text class="stat" x="25" y="12.5">Total Stars:</text>
      <text class="stat" x="135" y="12.5" font-weight="bold">%d</text>
    </g>

    <!-- Total Commits -->
    <g transform="translate(0, 35)">
      <svg y="-2" viewBox="0 0 16 16" version="1.1" width="16" height="16">
        <path class="icon" fill-rule="evenodd" d="M1.643 3.143L.427 1.927A.25.25 0 000 2.104V5.75c0 .138.112.25.25.25h3.646a.25.25 0 00.177-.427L2.715 4.215a6.5 6.5 0 11-1.18 4.458.75.75 0 10-1.493.154 8.001 8.001 0 101.6-5.684zM7.75 4a.75.75 0 01.75.75v2.992l2.028.812a.75.75 0 01-.557 1.392l-2.5-1A.75.75 0 017 8.25v-3.5A.75.75 0 017.75 4z"/>
      </svg>
      <text class="stat" x="25" y="12.5">Total Commits (2025):</text>
      <text class="stat" x="205" y="12.5" font-weight="bold">%d</text>
    </g>

    <!-- Total PRs -->
    <g transform="translate(0, 70)">
      <svg y="-2" viewBox="0 0 16 16" version="1.1" width="16" height="16">
        <path class="icon" fill-rule="evenodd" d="M7.177 3.073L9.573.677A.25.25 0 0110 .854v4.792a.25.25 0 01-.427.177L7.177 3.427a.25.25 0 010-.354zM3.75 2.5a.75.75 0 100 1.5.75.75 0 000-1.5zm-2.25.75a2.25 2.25 0 113 2.122v5.256a2.251 2.251 0 11-1.5 0V5.372A2.25 2.25 0 011.5 3.25zM11 2.5h-1V4h1a1 1 0 011 1v5.628a2.251 2.251 0 101.5 0V5A2.5 2.5 0 0011 2.5zm1 10.25a.75.75 0 111.5 0 .75.75 0 01-1.5 0zM3.75 12a.75.75 0 100 1.5.75.75 0 000-1.5z"/>
      </svg>
      <text class="stat" x="25" y="12.5">Total PRs:</text>
      <text class="stat" x="110" y="12.5" font-weight="bold">%d</text>
    </g>

    <!-- Total Issues -->
    <g transform="translate(300, 0)">
      <svg y="-2" viewBox="0 0 16 16" version="1.1" width="16" height="16">
        <path class="icon" fill-rule="evenodd" d="M8 1.5a6.5 6.5 0 100 13 6.5 6.5 0 000-13zM0 8a8 8 0 1116 0A8 8 0 010 8zm9 3a1 1 0 11-2 0 1 1 0 012 0zm-.25-6.25a.75.75 0 00-1.5 0v3.5a.75.75 0 001.5 0v-3.5z"/>
      </svg>
      <text class="stat" x="25" y="12.5">Total Issues:</text>
      <text class="stat" x="125" y="12.5" font-weight="bold">%d</text>
    </g>

    <!-- Contributed To -->
    <g transform="translate(300, 35)">
      <svg y="-2" viewBox="0 0 16 16" version="1.1" width="16" height="16">
        <path class="icon" fill-rule="evenodd" d="M2 2.5A2.5 2.5 0 014.5 0h8.75a.75.75 0 01.75.75v12.5a.75.75 0 01-.75.75h-2.5a.75.75 0 110-1.5h1.75v-2h-8a1 1 0 00-.714 1.7.75.75 0 01-1.072 1.05A2.495 2.495 0 012 11.5v-9zm10.5-1V9h-8c-.356 0-.694.074-1 .208V2.5a1 1 0 011-1h8zM5 12.25v3.25a.25.25 0 00.4.2l1.45-1.087a.25.25 0 01.3 0L8.6 15.7a.25.25 0 00.4-.2v-3.25a.25.25 0 00-.25-.25h-3.5a.25.25 0 00-.25.25z"/>
      </svg>
      <text class="stat" x="25" y="12.5">Contributed to:</text>
      <text class="stat" x="150" y="12.5" font-weight="bold">%d</text>
    </g>

    <!-- Total Contributions -->
    <g transform="translate(300, 70)">
      <svg y="-2" viewBox="0 0 16 16" version="1.1" width="16" height="16">
        <path class="icon" fill-rule="evenodd" d="M1.75 0A1.75 1.75 0 000 1.75v12.5C0 15.216.784 16 1.75 16h12.5A1.75 1.75 0 0016 14.25V1.75A1.75 1.75 0 0014.25 0H1.75zM1.5 1.75a.25.25 0 01.25-.25h12.5a.25.25 0 01.25.25v12.5a.25.25 0 01-.25.25H1.75a.25.25 0 01-.25-.25V1.75zM11.75 3a.75.75 0 00-.75.75v7.5a.75.75 0 001.5 0v-7.5a.75.75 0 00-.75-.75zm-8.25.75a.75.75 0 011.5 0v5.5a.75.75 0 01-1.5 0v-5.5zM8 3a.75.75 0 00-.75.75v3.5a.75.75 0 001.5 0v-3.5A.75.75 0 008 3z"/>
      </svg>
      <text class="stat" x="25" y="12.5">Contributions (2025):</text>
      <text class="stat" x="185" y="12.5" font-weight="bold">%d</text>
    </g>
  </g>
</svg>''\<close>

definition generateStatsCardSVG :: "StatsCard \<Rightarrow> string option" where
  "generateStatsCardSVG stats =
     Sprintf svg_format
       [TotalStars stats, TotalCommits stats, TotalPRs stats, TotalIssues stats,
        ContributedTo stats, StatsCard.TotalContributions stats]"

text \<open>
  The pieces of the format between its verbs: \<open>svg_format\<close> is
  \<open>svg_seg0\<close>, \<^verbatim>\<open>%%\<close>, \<open>svg_seg1\<close>, \<^verbatim>\<open>%d\<close>, \<open>svg_seg2\<close>, \<^verbatim>\<open>%d\<close>, and so on up to \<open>svg_seg7\<close>
  (lemma \<open>svg_format_segments\<close>).
\<close>

definition svg_seg0 :: string where
  \<open>svg_seg0 = ''<svg width="600" height="150" viewBox="0 0 600 150" fill="none" xmlns="http://www.w3.org/2000/svg" role="img" aria-labelledby="descId">
  <title id="titleId">GitHub Stats Card</title>
  <desc id="descId">GitHub statistics for user contributions</desc>

  <style>
    .header { font: 600 18px 'Segoe UI', Ubuntu, Sans-Serif; fill: #2f80ed; }
    .stat { font: 600 14px 'Segoe UI', Ubuntu, Sans-Serif; fill: #434d58; }
    .statlabel { font: 400 12px 'Segoe UI', Ubuntu, Sans-Serif; fill: #586069; }
    .icon { fill: #586069; }
    .card-bg { fill: #fffefe; }
    .card-border { stroke: #e4e2e2; }

    @media (prefers-color-scheme: dark) {
      .stat { fill: #e1e4e8; }
      .statlabel { fill: #8b949e; }
      .icon { fill: #8b949e; }
      .card-bg { fill: #0d1117; }
      .card-border { stroke: #30363d; }
    }
  </style>

  <rect class="card-bg" x="0.5" y="0.5" rx="4.5" height="99''\<close>

definition svg_seg1 :: string where
  \<open>svg_seg1 = ''" width="599" class="card-border" stroke-width="1" stroke-opacity="1"/>

  <g transform="translate(25, 30)">
    <!-- Total Stars -->
    <g transform="translate(0, 0)">
      <svg y="-2" viewBox="0 0 16 16" version="1.1" width="16" height="16">
        <path fill="#FFD700" fill-rule="evenodd" d="M8 .25a.75.75 0 01.673.418l1.882 3.815 4.21.612a.75.75 0 01.416 1.279l-3.046 2.97.719 4.192a.75.75 0 01-1.088.791L8 12.347l-3.766 1.98a.75.75 0 01-1.088-.79l.72-4.194L.818 6.374a.75.75 0 01.416-1.28l4.21-.611L7.327.668A.75.75 0 018 .25z"/>
      </svg>
      <text class="stat" x="25" y="12.5">Total Stars:</text>
      <text class="stat" x="135" y="12.5" font-weight="bold">''\<close>

definition svg_seg2 :: string where
  \<open>svg_seg2 = ''</text>
    </g>

    <!-- Total Commits -->
    <g transform="translate(0, 35)">
      <svg y="-2" viewBox="0 0 16 16" version="1.1" width="16" height="16">
        <path class="icon" fill-rule="evenodd" d="M1.643 3.143L.427 1.927A.25.25 0 000 2.104V5.75c0 .138.112.25.25.25h3.646a.25.25 0 00.177-.427L2.715 4.215a6.5 6.5 0 11-1.18 4.458.75.75 0 10-1.493.154 8.001 8.001 0 101.6-5.684zM7.75 4a.75.75 0 01.75.75v2.992l2.028.812a.75.75 0 01-.557 1.392l-2.5-1A.75.75 0 017 8.25v-3.5A.75.75 0 017.75 4z"/>
      </svg>
      <text class="stat" x="25" y="12.5">Total Commits (2025):</text>
      <text class="stat" x="205" y="12.5" font-weight="bold">''\<close>

definition svg_seg3 :: string where
  \<open>svg_seg3 = ''</text>
    </g>

    <!-- Total PRs -->
    <g transform="translate(0, 70)">
      <svg y="-2" viewBox="0 0 16 16" version="1.1" width="16" height="16">
        <path class="icon" fill-rule="evenodd" d="M7.177 3.073L9.573.677A.25.25 0 0110 .854v4.792a.25.25 0 01-.427.177L7.177 3.427a.25.25 0 010-.354zM3.75 2.5a.75.75 0 100 1.5.75.75 0 000-1.5zm-2.25.75a2.25 2.25 0 113 2.122v5.256a2.251 2.251 0 11-1.5 0V5.372A2.25 2.25 0 011.5 3.25zM11 2.5h-1V4h1a1 1 0 011 1v5.628a2.251 2.251 0 101.5 0V5A2.5 2.5 0 0011 2.5zm1 10.25a.75.75 0 111.5 0 .75.75 0 01-1.5 0zM3.75 12a.75.75 0 100 1.5.75.75 0 000-1.5z"/>
      </svg>
      <text class="stat" x="25" y="12.5">Total PRs:</text>
      <text class="stat" x="110" y="12.5" font-weight="bold">''\<close>

definition svg_seg4 :: string where
  \<open>svg_seg4 = ''</text>
    </g>

    <!-- Total Issues -->
    <g transform="translate(300, 0)">
      <svg y="-2" viewBox="0 0 16 16" version="1.1" width="16" height="16">
        <path class="icon" fill-rule="evenodd" d="M8 1.5a6.5 6.5 0 100 13 6.5 6.5 0 000-13zM0 8a8 8 0 1116 0A8 8 0 010 8zm9 3a1 1 0 11-2 0 1 1 0 012 0zm-.25-6.25a.75.75 0 00-1.5 0v3.5a.75.75 0 001.5 0v-3.5z"/>
      </svg>
      <text class="stat" x="25" y="12.5">Total Issues:</text>
      <text class="stat" x="125" y="12.5" font-weight="bold">''\<close>

definition svg_seg5 :: string where
  \<open>svg_seg5 = ''</text>
    </g>

    <!-- Contributed To -->
    <g transform="translate(300, 35)">
      <svg y="-2" viewBox="0 0 16 16" version="1.1" width="16" height="16">
        <path class="icon" fill-rule="evenodd" d="M2 2.5A2.5 2.5 0 014.5 0h8.75a.75.75 0 01.75.75v12.5a.75.75 0 01-.75.75h-2.5a.75.75 0 110-1.5h1.75v-2h-8a1 1 0 00-.714 1.7.75.75 0 01-1.072 1.05A2.495 2.495 0 012 11.5v-9zm10.5-1V9h-8c-.356 0-.694.074-1 .208V2.5a1 1 0 011-1h8zM5 12.25v3.25a.25.25 0 00.4.2l1.45-1.087a.25.25 0 01.3 0L8.6 15.7a.25.25 0 00.4-.2v-3.25a.25.25 0 00-.25-.25h-3.5a.25.25 0 00-.25.25z"/>
      </svg>
      <text class="stat" x="25" y="12.5">Contributed to:</text>
      <text class="stat" x="150" y="12.5" font-weight="bold">''\<close>

definition svg_seg6 :: string where
  \<open>svg_seg6 = ''</text>
    </g>

    <!-- Total Contributions -->
    <g transform="translate(300, 70)">
      <svg y="-2" viewBox="0 0 16 16" version="1.1" width="16" height="16">
        <path class="icon" fill-rule="evenodd" d="M1.75 0A1.75 1.75 0 000 1.75v12.5C0 15.216.784 16 1.75 16h12.5A1.75 1.75 0 0016 14.25V1.75A1.75 1.75 0 0014.25 0H1.75zM1.5 1.75a.25.25 0 01.25-.25h12.5a.25.25 0 01.25.25v12.5a.25.25 0 01-.25.25H1.75a.25.25 0 01-.25-.25V1.75zM11.75 3a.75.75 0 00-.75.75v7.5a.75.75 0 001.5 0v-7.5a.75.75 0 00-.75-.75zm-8.25.75a.75.75 0 011.5 0v5.5a.75.75 0 01-1.5 0v-5.5zM8 3a.75.75 0 00-.75.75v3.5a.75.75 0 001.5 0v-3.5A.75.75 0 008 3z"/>
      </svg>
      <text class="stat" x="25" y="12.5">Contributions (2025):</text>
      <text class="stat" x="185" y="12.5" font-weight="bold">''\<close>

definition svg_seg7 :: string where
  \<open>svg_seg7 = ''</text>
    </g>
  </g>
</svg>''\<close>

text \<open>
  \<^verbatim>\<open>strings.TrimSpace\<close>, with which the test of the repository reads the end of the
  output, on ASCII white space.
\<close>

definition isSpace :: "char \<Rightarrow> bool" where
  "isSpace c = (c \<in> set [CHR '' '', CHR 0x09, CHR 0x0A, CHR 0x0B, CHR 0x0C, CHR 0x0D])"

definition TrimSpace :: "string \<Rightarrow> string" where
  "TrimSpace s = rev (dropWhile isSpace (rev (dropWhile isSpace s)))"

section \<open>Time, contexts and the HTTP client\<close>

text \<open>
  Instants and durations are natural numbers of nanoseconds, as \<^verbatim>\<open>time.Duration\<close> has
  them. A context is the instant at which it is cancelled, if it ever is;
  \<^verbatim>\<open>context.Background()\<close> never is.
\<close>

definition Millisecond :: nat where
  "Millisecond = 1000000"

definition Second :: nat where
  "Second = 1000 * Millisecond"

definition Minute :: nat where
  "Minute = 60 * Second"

type_synonym Context = "nat option"

definition Background :: Context where
  "Background = None"

definition ctx_Done :: "Context \<Rightarrow> nat \<Rightarrow> bool" where
  "ctx_Done ctx now = (case ctx of None \<Rightarrow> False | Some c \<Rightarrow> c \<le> now)"

text \<open>
  The network: for a request sent at an instant, how the round trip ends when it is
  left alone, and how long it takes. \<open>client_Do\<close> is \<^verbatim>\<open>client.Do\<close> and \<^verbatim>\<open>io.ReadAll\<close> on a
  client with the timeout of line 200 and a request made with the context \<open>ctx\<close>
  (line 192): a round trip that the timeout or the cancellation cuts short ends at
  that instant with an error, and a request under a context that is already done is
  not sent. The result is the round trip and the instant at which it is over.
\<close>

type_synonym network = "nat \<Rightarrow> http_request \<Rightarrow> round_trip \<times> nat"

definition clientTimeout :: nat where
  "clientTimeout = 30 * Second"

definition client_Do :: "Context \<Rightarrow> network \<Rightarrow> nat \<Rightarrow> http_request \<Rightarrow> round_trip \<times> nat" where
  "client_Do ctx net now req =
     (let rt = fst (net now req);
          d = snd (net now req);
          rt' = (if clientTimeout < d then DoFailed ''context deadline exceeded'' else rt);
          t' = (if clientTimeout < d then now + clientTimeout else now + d)
      in case ctx of
           None \<Rightarrow> (rt', t')
         | Some c \<Rightarrow>
             if c \<le> now then (DoFailed ''context canceled'', now)
             else if c < t' then (DoFailed ''context canceled'', c)
             else (rt', t'))"

section \<open>The retry policy of github.com/cenkalti/backoff/v4\<close>

text \<open>
  \<^verbatim>\<open>backoff.NewExponentialBackOff()\<close> with its default settings: initial interval 500 ms,
  multiplier 1.5, largest interval 60 s, randomisation factor 0.5. \<^verbatim>\<open>Reset\<close> sets the
  current interval to the initial one and notes the start time.

  \<^verbatim>\<open>NextBackOff\<close> draws the next wait at random from the current interval plus or
  minus the randomisation factor, enlarges the current interval, and answers \<^verbatim>\<open>Stop\<close>
  (here \<open>None\<close>) when the time elapsed since the start plus the next wait exceeds
  \<^verbatim>\<open>MaxElapsedTime\<close>. The random draw is a parameter: \<open>randomized cur\<close> is the value that
  \<^verbatim>\<open>getRandomValueFromInterval\<close> returns at this call for the current interval \<open>cur\<close>.
\<close>

record ExponentialBackOff =
  InitialInterval :: nat
  MaxInterval :: nat
  MaxElapsedTime :: nat
  currentInterval :: nat
  startTime :: nat

definition NewExponentialBackOff :: "nat \<Rightarrow> ExponentialBackOff" where
  "NewExponentialBackOff now =
     \<lparr>InitialInterval = 500 * Millisecond, MaxInterval = 60 * Second,
      MaxElapsedTime = 15 * Minute, currentInterval = 500 * Millisecond, startTime = now\<rparr>"

definition Reset :: "ExponentialBackOff \<Rightarrow> nat \<Rightarrow> ExponentialBackOff" where
  "Reset b now = b\<lparr>currentInterval := InitialInterval b, startTime := now\<rparr>"

text \<open>With the multiplier 1.5: the largest interval once two thirds of it are reached.\<close>

definition incrementCurrentInterval :: "ExponentialBackOff \<Rightarrow> ExponentialBackOff" where
  "incrementCurrentInterval b =
     (if 2 * MaxInterval b \<le> 3 * currentInterval b
      then b\<lparr>currentInterval := MaxInterval b\<rparr>
      else b\<lparr>currentInterval := (3 * currentInterval b) div 2\<rparr>)"

definition NextBackOff ::
  "(nat \<Rightarrow> nat) \<Rightarrow> ExponentialBackOff \<Rightarrow> nat \<Rightarrow> nat option \<times> ExponentialBackOff"
where
  "NextBackOff randomized b now =
     (let elapsed = now - startTime b;
          next = randomized (currentInterval b);
          b' = incrementCurrentInterval b
      in if MaxElapsedTime b \<noteq> 0 \<and> MaxElapsedTime b < elapsed + next
         then (None, b')
         else (Some next, b'))"

text \<open>
  \<^verbatim>\<open>backoff.Retry(operation, b)\<close>. The loop calls the operation; on an error it asks the
  policy for the next wait and sleeps, unless the error is a \<^verbatim>\<open>*backoff.PermanentError\<close>
  or the policy says \<^verbatim>\<open>Stop\<close>. The sleep is a \<^verbatim>\<open>select\<close> between the timer and the \<^verbatim>\<open>Done\<close>
  channel of the context of the policy, \<^verbatim>\<open>getContext(b)\<close>: the context given to
  \<^verbatim>\<open>backoff.WithContext\<close> if the policy was wrapped by it, \<^verbatim>\<open>context.Background()\<close>
  otherwise.

  The operation is a function of the instant at which it is called and returns its
  result with the instant at which it returns. \<open>jitter n\<close> is the random draw of the
  \<open>n\<close>-th call of \<^verbatim>\<open>NextBackOff\<close>. The loop need not end for every policy and every
  operation, so it runs on fuel; \<open>None\<close> says that the fuel did not suffice.
\<close>

text \<open>
  No error that \<^verbatim>\<open>fetchStats\<close> returns is or wraps a \<^verbatim>\<open>*backoff.PermanentError\<close>: the
  closure of lines 145-155 returns the error as it is, and \<^verbatim>\<open>backoff.Permanent\<close> occurs
  nowhere in the program.
\<close>

definition is_PermanentError :: "error \<Rightarrow> bool" where
  "is_PermanentError err = False"

record retry_result =
  outcome :: "error + StatsCard"
  returned_at :: nat
  attempts :: nat

fun Retry ::
  "nat \<Rightarrow> Context \<Rightarrow> (nat \<Rightarrow> nat \<Rightarrow> nat) \<Rightarrow> (nat \<Rightarrow> (error + StatsCard) \<times> nat)
     \<Rightarrow> ExponentialBackOff \<Rightarrow> nat \<Rightarrow> nat \<Rightarrow> retry_result option"
where
  "Retry 0 ctx jitter operation b now n = None"
| "Retry (Suc fuel) ctx jitter operation b now n =
     (let res = fst (operation now); t = snd (operation now) in
      case res of
        Inr stats \<Rightarrow> Some \<lparr>outcome = Inr stats, returned_at = t, attempts = Suc n\<rparr>
      | Inl err \<Rightarrow>
          if is_PermanentError err
          then Some \<lparr>outcome = Inl err, returned_at = t, attempts = Suc n\<rparr>
          else
            (case fst (NextBackOff (jitter n) b t) of
               None \<Rightarrow>
                 Some \<lparr>outcome = Inl (if ctx_Done ctx t then ContextError ''context canceled'' else err),
                       returned_at = t, attempts = Suc n\<rparr>
             | Some next \<Rightarrow>
                 (case ctx of
                    None \<Rightarrow>
                      Retry fuel ctx jitter operation (snd (NextBackOff (jitter n) b t)) (t + next) (Suc n)
                  | Some c \<Rightarrow>
                      if c \<le> t + next
                      then Some \<lparr>outcome = Inl (ContextError ''context canceled''),
                                 returned_at = max c t, attempts = Suc n\<rparr>
                      else Retry fuel ctx jitter operation (snd (NextBackOff (jitter n) b t))
                             (t + next) (Suc n))))"

section \<open>fetchStatsWithRetry (lines 139-162)\<close>

text \<open>
  The policy is the plain \<^verbatim>\<open>ExponentialBackOff\<close> of line 142 with the budget of line
  143; it is not wrapped by \<^verbatim>\<open>backoff.WithContext\<close>, so the context of the policy is
  \<^verbatim>\<open>context.Background()\<close>. The context \<open>ctx\<close> of the caller goes into \<^verbatim>\<open>fetchStats\<close> only
  (line 147). The log line of the verbose mode is not modelled.
\<close>

definition operation ::
  "(string \<Rightarrow> json option) \<Rightarrow> network \<Rightarrow> Context \<Rightarrow> Config \<Rightarrow> nat \<Rightarrow> (error + StatsCard) \<times> nat"
where
  "operation parse net ctx config now =
     (fetchStats parse (\<lambda>req. fst (client_Do ctx net now req)) config,
      snd (client_Do ctx net now (build_request config)))"

definition fetchStatsWithRetry ::
  "nat \<Rightarrow> (string \<Rightarrow> json option) \<Rightarrow> network \<Rightarrow> (nat \<Rightarrow> nat \<Rightarrow> nat) \<Rightarrow> Context \<Rightarrow> nat \<Rightarrow> Config
     \<Rightarrow> retry_result option"
where
  "fetchStatsWithRetry fuel parse net jitter ctx now config =
     (let exponentialBackoff = (NewExponentialBackOff now)\<lparr>MaxElapsedTime := 2 * Minute\<rparr>
      in case Retry fuel Background jitter (operation parse net ctx config)
                (Reset exponentialBackoff now) now 0 of
           None \<Rightarrow> None
         | Some r \<Rightarrow>
             (case outcome r of
                Inl err \<Rightarrow> Some (r\<lparr>outcome := Inl (FailedAfterRetries err)\<rparr>)
              | Inr stats \<Rightarrow> Some r))"

section \<open>loadConfig and main (lines 68-137)\<close>

text \<open>
  The environment is a map from names to values; \<^verbatim>\<open>os.Getenv\<close> returns the empty string
  for a name that is not set. \<^verbatim>\<open>log.Fatal\<close> ends the process: \<open>loadConfig\<close> returns its
  message on the left.
\<close>

type_synonym environ = "string \<Rightarrow> string option"

definition os_Getenv :: "environ \<Rightarrow> string \<Rightarrow> string" where
  "os_Getenv env key = (case env key of None \<Rightarrow> [] | Some v \<Rightarrow> v)"

definition getEnv :: "environ \<Rightarrow> string \<Rightarrow> string \<Rightarrow> string" where
  "getEnv env key defaultValue =
     (if os_Getenv env key \<noteq> [] then os_Getenv env key else defaultValue)"

definition ParseBool :: "string \<Rightarrow> bool option" where
  "ParseBool str =
     (if str \<in> set [''1'', ''t'', ''T'', ''TRUE'', ''true'', ''True''] then Some True
      else if str \<in> set [''0'', ''f'', ''F'', ''FALSE'', ''false'', ''False''] then Some False
      else None)"

definition getEnvBool :: "environ \<Rightarrow> string \<Rightarrow> bool \<Rightarrow> bool" where
  "getEnvBool env key defaultValue =
     (if os_Getenv env key \<noteq> []
      then (case ParseBool (os_Getenv env key) of Some b \<Rightarrow> b | None \<Rightarrow> defaultValue)
      else defaultValue)"

definition loadConfig :: "environ \<Rightarrow> string + Config" where
  "loadConfig env =
     (let config =
        \<lparr>Username = getEnv env ''GITHUB_USERNAME'' defaultUsername,
         Token = os_Getenv env ''GITHUB_TOKEN'',
         OutputDir = getEnv env ''OUTPUT_DIR'' defaultOutputDir,
         OutputFile = getEnv env ''OUTPUT_FILE'' ''stats-card.svg'',
         Verbose = getEnvBool env ''VERBOSE'' False\<rparr>
      in if Token config = [] then Inl ''GITHUB_TOKEN environment variable is required''
         else Inr config)"

text \<open>
  The file system, as far as \<^verbatim>\<open>main\<close> touches it: whether \<^verbatim>\<open>os.Stat\<close> reports that a
  directory does not exist, and the errors of \<^verbatim>\<open>os.MkdirAll\<close> and \<^verbatim>\<open>os.WriteFile\<close>, if any.
\<close>

record filesystem =
  IsNotExist :: "string \<Rightarrow> bool"
  MkdirAll :: "string \<Rightarrow> string option"
  WriteFile :: "string \<Rightarrow> string \<Rightarrow> string option"

definition ensureOutputDir :: "filesystem \<Rightarrow> string \<Rightarrow> string option" where
  "ensureOutputDir fs dir = (if IsNotExist fs dir then MkdirAll fs dir else None)"

text \<open>
  How a run of \<^verbatim>\<open>main\<close> ends: with one of its four fatal log lines, or with the card
  written to its path. The second component of the result of \<open>main\<close> counts the calls of
  \<^verbatim>\<open>fetchStats\<close>, each of which makes one request.
\<close>

datatype exit =
    ConfigFatal string
  | FetchFatal error
  | MkdirFatal string
  | WriteFatal string
  | Generated string string

definition main ::
  "nat \<Rightarrow> environ \<Rightarrow> (string \<Rightarrow> json option) \<Rightarrow> network \<Rightarrow> (nat \<Rightarrow> nat \<Rightarrow> nat) \<Rightarrow> filesystem
     \<Rightarrow> (exit \<times> nat) option"
where
  "main fuel env parse net jitter fs =
     (case loadConfig env of
        Inl msg \<Rightarrow> Some (ConfigFatal msg, 0)
      | Inr config \<Rightarrow>
     (case fetchStatsWithRetry fuel parse net jitter Background 0 config of
        None \<Rightarrow> None
      | Some r \<Rightarrow>
     (case outcome r of
        Inl err \<Rightarrow> Some (FetchFatal err, attempts r)
      | Inr stats \<Rightarrow>
     (case generateStatsCardSVG stats of
        None \<Rightarrow> None
      | Some svg \<Rightarrow>
     (case ensureOutputDir fs (OutputDir config) of
        Some err \<Rightarrow> Some (MkdirFatal err, attempts r)
      | None \<Rightarrow>
     (case WriteFile fs (OutputDir config @ ''/'' @ OutputFile config) svg of
        Some err \<Rightarrow> Some (WriteFatal err, attempts r)
      | None \<Rightarrow> Some (Generated (OutputDir config @ ''/'' @ OutputFile config) svg, attempts r)))))))"

section \<open>Vocabulary of the specification\<close>

text \<open>
  The classes of failure of the API client. The first four are the taxonomy of the
  specification (section 7); \<open>DecodeFailure\<close> is the failure of line 224, which the
  taxonomy does not name. \<open>failure_of\<close> sends each error that \<^verbatim>\<open>fetchStats\<close> constructs
  to its class, and \<open>spec_kind\<close> is its restriction to the four classes of the
  specification.
\<close>

datatype failure =
    TransportFailure
  | NonSuccessStatus
  | RateLimitExhaustion
  | GraphQLFailure
  | DecodeFailure

fun failure_of :: "error \<Rightarrow> failure option" where
  "failure_of (ExecuteRequest m) = Some TransportFailure"
| "failure_of (ReadResponse m) = Some TransportFailure"
| "failure_of (UnexpectedStatus code body) = Some NonSuccessStatus"
| "failure_of (RateLimitExceeded reset) = Some RateLimitExhaustion"
| "failure_of (GraphQLErrors es) = Some GraphQLFailure"
| "failure_of (UnmarshalResponse e) = Some DecodeFailure"
| "failure_of (MarshalQuery m) = None"
| "failure_of (CreateRequest m) = None"
| "failure_of (FailedAfterRetries e) = None"
| "failure_of (ContextError m) = None"

definition spec_kind :: "error \<Rightarrow> failure option" where
  "spec_kind e = (if failure_of e = Some DecodeFailure then None else failure_of e)"

text \<open>
  Two results of an attempt have the same shape when both are errors, of whatever
  kind, or both are the same card.
\<close>

definition same_shape :: "error + StatsCard \<Rightarrow> error + StatsCard \<Rightarrow> bool" where
  "same_shape a b =
     (case a of
        Inl e \<Rightarrow> (case b of Inl e' \<Rightarrow> True | Inr y \<Rightarrow> False)
      | Inr x \<Rightarrow> (case b of Inl e' \<Rightarrow> False | Inr y \<Rightarrow> x = y))"

text \<open>Two runs of the retry loop agree when they made the same number of attempts,
  returned at the same instant, and returned results of the same shape.\<close>

definition same_run :: "retry_result \<Rightarrow> retry_result \<Rightarrow> bool" where
  "same_run r1 r2 \<longleftrightarrow>
     attempts r1 = attempts r2 \<and> returned_at r1 = returned_at r2
       \<and> same_shape (outcome r1) (outcome r2)"

text \<open>
  The values that an object holds under the keys that select the field \<open>name\<close>, and
  the values at the end of a path of field names. A field is absent from a body when
  the path to it leads to no value.
\<close>

definition member :: "string \<Rightarrow> json \<Rightarrow> json list" where
  "member name j =
     (case j of
        JObject kvs \<Rightarrow> map snd (filter (\<lambda>kv. foldName (fst kv) = foldName name) kvs)
      | _ \<Rightarrow> [])"

fun lookup_path :: "string list \<Rightarrow> json \<Rightarrow> json list" where
  "lookup_path [] j = [j]"
| "lookup_path (name # names) j = concat (map (lookup_path names) (member name j))"

text \<open>
  The text that \<^verbatim>\<open>generateStatsCardSVG\<close> returns for a card (lemma
  \<open>generateStatsCardSVG_text\<close>): the pieces of the format, with \<^verbatim>\<open>%\<close> for \<^verbatim>\<open>%%\<close> and the
  six numbers in decimal between them.
\<close>

definition card_text :: "StatsCard \<Rightarrow> string" where
  "card_text stats =
     svg_seg0 @ ''%'' @ svg_seg1 @ fmt_d (TotalStars stats) @ svg_seg2 @ fmt_d (TotalCommits stats)
       @ svg_seg3 @ fmt_d (TotalPRs stats) @ svg_seg4 @ fmt_d (TotalIssues stats)
       @ svg_seg5 @ fmt_d (ContributedTo stats) @ svg_seg6
       @ fmt_d (StatsCard.TotalContributions stats) @ svg_seg7"

text \<open>
  Well-formedness of a document, as far as its elements go. The document is read
  byte by byte: outside tags there is character data and comments; a start tag has a
  name and attributes \<^verbatim>\<open>name="value"\<close> separated by white space; an end tag closes the
  innermost open element; there is exactly one outermost element. Two constraints of
  XML are checked on top of the syntax: an end tag names the element it closes, and
  no attribute name occurs twice in one tag. Names are read leniently (any byte that
  is not a delimiter), and entity references, CDATA sections, processing instructions
  and document type declarations are not part of this reader; the format string uses
  none of them.
\<close>

datatype xml_error =
    DuplicateAttribute string
  | MismatchedEndTag string
  | Malformed

datatype xml_mode =
    Content
  | TagStart
  | OpenName string
  | InTag
  | AttrName string
  | AttrEq string
  | AttrValueStart
  | AttrValue char
  | AfterValue
  | EmptyEnd
  | CloseName string
  | CloseEnd string
  | Bang
  | BangDash
  | Comment
  | CommentDash
  | CommentDashDash

datatype xml_state = XS (mode: xml_mode) (open_elems: "string list") (tag: string) (attrs: "string list") (roots: nat)

definition isNameChar :: "char \<Rightarrow> bool" where
  "isNameChar c \<longleftrightarrow> \<not> isSpace c \<and> c \<notin> set ''<>/=!?&'' \<and> c \<noteq> CHR 0x22 \<and> c \<noteq> CHR 0x27"

definition isNameStart :: "char \<Rightarrow> bool" where
  "isNameStart c \<longleftrightarrow> isNameChar c \<and> \<not> isDigit c \<and> c \<noteq> CHR ''-'' \<and> c \<noteq> CHR ''.''"

definition finish_start_tag :: "string list \<Rightarrow> string \<Rightarrow> string list \<Rightarrow> nat \<Rightarrow> xml_error + xml_state" where
  "finish_start_tag es t as r = Inr (XS Content (t # es) t as (if es = [] then Suc r else r))"

definition finish_empty_tag :: "string list \<Rightarrow> string \<Rightarrow> string list \<Rightarrow> nat \<Rightarrow> xml_error + xml_state" where
  "finish_empty_tag es t as r = Inr (XS Content es t as (if es = [] then Suc r else r))"

definition close_element :: "string list \<Rightarrow> string \<Rightarrow> string list \<Rightarrow> nat \<Rightarrow> string \<Rightarrow> xml_error + xml_state" where
  "close_element es t as r n =
     (case es of
        [] \<Rightarrow> Inl (MismatchedEndTag n)
      | e # es' \<Rightarrow> if e = n then Inr (XS Content es' t as r) else Inl (MismatchedEndTag n))"

definition declare_attr :: "string list \<Rightarrow> string \<Rightarrow> string list \<Rightarrow> nat \<Rightarrow> string \<Rightarrow> xml_error + xml_state" where
  "declare_attr es t as r a =
     (if a \<in> set as then Inl (DuplicateAttribute a) else Inr (XS AttrValueStart es t (a # as) r))"

fun xml_step :: "xml_state \<Rightarrow> char \<Rightarrow> xml_error + xml_state" where
  "xml_step (XS Content es t as r) c =
     (if c = CHR ''<'' then Inr (XS TagStart es t as r)
      else if es = [] \<and> \<not> isSpace c then Inl Malformed
      else Inr (XS Content es t as r))"
| "xml_step (XS TagStart es t as r) c =
     (if c = CHR ''/'' then Inr (XS (CloseName []) es t as r)
      else if c = CHR ''!'' then Inr (XS Bang es t as r)
      else if isNameStart c \<and> \<not> (es = [] \<and> r \<noteq> 0) then Inr (XS (OpenName [c]) es t as r)
      else Inl Malformed)"
| "xml_step (XS (OpenName n) es t as r) c =
     (if isNameChar c then Inr (XS (OpenName (n @ [c])) es t as r)
      else if isSpace c then Inr (XS InTag es n [] r)
      else if c = CHR ''>'' then finish_start_tag es n [] r
      else if c = CHR ''/'' then Inr (XS EmptyEnd es n [] r)
      else Inl Malformed)"
| "xml_step (XS InTag es t as r) c =
     (if isSpace c then Inr (XS InTag es t as r)
      else if c = CHR ''>'' then finish_start_tag es t as r
      else if c = CHR ''/'' then Inr (XS EmptyEnd es t as r)
      else if isNameStart c then Inr (XS (AttrName [c]) es t as r)
      else Inl Malformed)"
| "xml_step (XS (AttrName a) es t as r) c =
     (if isNameChar c then Inr (XS (AttrName (a @ [c])) es t as r)
      else if c = CHR ''='' then declare_attr es t as r a
      else if isSpace c then Inr (XS (AttrEq a) es t as r)
      else Inl Malformed)"
| "xml_step (XS (AttrEq a) es t as r) c =
     (if isSpace c then Inr (XS (AttrEq a) es t as r)
      else if c = CHR ''='' then declare_attr es t as r a
      else Inl Malformed)"
| "xml_step (XS AttrValueStart es t as r) c =
     (if isSpace c then Inr (XS AttrValueStart es t as r)
      else if c = CHR 0x22 \<or> c = CHR 0x27 then Inr (XS (AttrValue c) es t as r)
      else Inl Malformed)"
| "xml_step (XS (AttrValue q) es t as r) c =
     (if c = q then Inr (XS AfterValue es t as r)
      else if c = CHR ''<'' then Inl Malformed
      else Inr (XS (AttrValue q) es t as r))"
| "xml_step (XS AfterValue es t as r) c =
     (if isSpace c then Inr (XS InTag es t as r)
      else if c = CHR ''>'' then finish_start_tag es t as r
      else if c = CHR ''/'' then Inr (XS EmptyEnd es t as r)
      else Inl Malformed)"
| "xml_step (XS EmptyEnd es t as r) c =
     (if c = CHR ''>'' then finish_empty_tag es t as r else Inl Malformed)"
| "xml_step (XS (CloseName n) es t as r) c =
     (if (if n = [] then isNameStart c else isNameChar c) then Inr (XS (CloseName (n @ [c])) es t as r)
      else if n \<noteq> [] \<and> isSpace c then Inr (XS (CloseEnd n) es t as r)
      else if n \<noteq> [] \<and> c = CHR ''>'' then close_element es t as r n
      else Inl Malformed)"
| "xml_step (XS (CloseEnd n) es t as r) c =
     (if isSpace c then Inr (XS (CloseEnd n) es t as r)
      else if c = CHR ''>'' then close_element es t as r n
      else Inl Malformed)"
| "xml_step (XS Bang es t as r) c =
     (if c = CHR ''-'' then Inr (XS BangDash es t as r) else Inl Malformed)"
| "xml_step (XS BangDash es t as r) c =
     (if c = CHR ''-'' then Inr (XS Comment es t as r) else Inl Malformed)"
| "xml_step (XS Comment es t as r) c =
     (if c = CHR ''-'' then Inr (XS CommentDash es t as r) else Inr (XS Comment es t as r))"
| "xml_step (XS CommentDash es t as r) c =
     (if c = CHR ''-'' then Inr (XS CommentDashDash es t as r) else Inr (XS Comment es t as r))"
| "xml_step (XS CommentDashDash es t as r) c =
     (if c = CHR ''>'' then Inr (XS Content es t as r) else Inl Malformed)"

fun xml_run :: "xml_state \<Rightarrow> string \<Rightarrow> xml_error + xml_state" where
  "xml_run s [] = Inr s"
| "xml_run s (c # cs) = (case xml_step s c of Inl e \<Rightarrow> Inl e | Inr s' \<Rightarrow> xml_run s' cs)"

definition xml_init :: xml_state where
  "xml_init = XS Content [] [] [] 0"

definition xml_check :: "string \<Rightarrow> xml_error + xml_state" where
  "xml_check doc = xml_run xml_init doc"

text \<open>A document is accepted when it ends outside every tag, with its one element closed.\<close>

definition xml_well_formed :: "string \<Rightarrow> bool" where
  "xml_well_formed doc =
     (case xml_check doc of
        Inl e \<Rightarrow> False
      | Inr s \<Rightarrow> mode s = Content \<and> open_elems s = [] \<and> roots s = 1)"


text \<open>
  \<open>svg_seg1\<close> without the second \<^verbatim>\<open>class\<close> attribute of the \<^verbatim>\<open>rect\<close> element of line 269, and
  the text of a card rendered with it.
\<close>

definition svg_seg1_single_class :: string where
  \<open>svg_seg1_single_class = ''" width="599" stroke-width="1" stroke-opacity="1"/>

  <g transform="translate(25, 30)">
    <!-- Total Stars -->
    <g transform="translate(0, 0)">
      <svg y="-2" viewBox="0 0 16 16" version="1.1" width="16" height="16">
        <path fill="#FFD700" fill-rule="evenodd" d="M8 .25a.75.75 0 01.673.418l1.882 3.815 4.21.612a.75.75 0 01.416 1.279l-3.046 2.97.719 4.192a.75.75 0 01-1.088.791L8 12.347l-3.766 1.98a.75.75 0 01-1.088-.79l.72-4.194L.818 6.374a.75.75 0 01.416-1.28l4.21-.611L7.327.668A.75.75 0 018 .25z"/>
      </svg>
      <text class="stat" x="25" y="12.5">Total Stars:</text>
      <text class="stat" x="135" y="12.5" font-weight="bold">''\<close>

definition card_text_single_class :: "StatsCard \<Rightarrow> string" where
  "card_text_single_class stats =
     svg_seg0 @ ''%'' @ svg_seg1_single_class @ fmt_d (TotalStars stats) @ svg_seg2
       @ fmt_d (TotalCommits stats) @ svg_seg3 @ fmt_d (TotalPRs stats) @ svg_seg4
       @ fmt_d (TotalIssues stats) @ svg_seg5 @ fmt_d (ContributedTo stats) @ svg_seg6
       @ fmt_d (StatsCard.TotalContributions stats) @ svg_seg7"

text \<open>
  Decoding an object with the field table \<open>field\<close> preserves the property \<open>Q\<close> of the
  struct whenever the path \<open>p\<close> leads to no value in the object. It is the form in
  which the lemmas on absent keys are stated and composed.
\<close>

definition preserves ::
  "(string \<Rightarrow> json \<Rightarrow> 'a \<Rightarrow> json_error + 'a) \<Rightarrow> string list \<Rightarrow> ('a \<Rightarrow> bool) \<Rightarrow> bool"
where
  "preserves field p Q \<longleftrightarrow>
     (\<forall>j v v'. lookup_path p j = [] \<longrightarrow> Q v \<longrightarrow> decode_struct field j v = Inr v' \<longrightarrow> Q v')"

section \<open>Concrete inputs\<close>

text \<open>A transport that answers every request with the same round trip.\<close>

definition reply :: "round_trip \<Rightarrow> http_request \<Rightarrow> round_trip" where
  "reply rt req = rt"

text \<open>A JSON reader given by a finite table of texts; every other text is a syntax error.\<close>

definition parse_table :: "(string \<times> json) list \<Rightarrow> string \<Rightarrow> json option" where
  "parse_table tbl body = map_of tbl body"

definition sample_config :: Config where
  "sample_config =
     \<lparr>Username = ''testuser'', Token = ''test-token'', OutputDir = ''output'',
      OutputFile = ''stats-card.svg'', Verbose = False\<rparr>"

definition no_headers :: Header where
  "no_headers = Map.empty"

definition limited_headers :: Header where
  "limited_headers =
     [''X-Ratelimit-Remaining'' \<mapsto> [''0''], ''X-Ratelimit-Reset'' \<mapsto> [''1699999999'']]"

definition limited_200 :: http_response where
  "limited_200 = \<lparr>StatusCode = 200, Header = limited_headers, Body = []\<rparr>"

definition limited_403 :: http_response where
  "limited_403 = \<lparr>StatusCode = 403, Header = limited_headers, Body = ''slow down''\<rparr>"

definition plain_200 :: "string \<Rightarrow> http_response" where
  "plain_200 body = \<lparr>StatusCode = 200, Header = no_headers, Body = body\<rparr>"

definition node :: "go_int \<Rightarrow> GitHubResponse_Node" where
  "node stars = \<lparr>StargazerCount = stars\<rparr>"

definition payload_with_nodes :: "GitHubResponse_Node list \<Rightarrow> GitHubResponse" where
  "payload_with_nodes ns =
     zero_GitHubResponse\<lparr>Data := \<lparr>User =
       (User (Data zero_GitHubResponse))\<lparr>Repositories := \<lparr>Nodes = ns\<rparr>\<rparr>\<rparr>\<rparr>"

text \<open>
  A network on which every round trip ends the same way after the same time; random
  draws that hit the middle of the interval; an environment with the token only and
  one with the user name only; a file system on which nothing fails.
\<close>

definition constant_net :: "round_trip \<Rightarrow> nat \<Rightarrow> network" where
  "constant_net rt d now req = (rt, d)"

definition no_jitter :: "nat \<Rightarrow> nat \<Rightarrow> nat" where
  "no_jitter n cur = cur"

definition env_token_only :: environ where
  "env_token_only = [''GITHUB_TOKEN'' \<mapsto> ''test-token'']"

definition env_user_only :: environ where
  "env_user_only = [''GITHUB_USERNAME'' \<mapsto> ''testuser'']"

definition fs_ok :: filesystem where
  "fs_ok = \<lparr>IsNotExist = (\<lambda>dir. False), MkdirAll = (\<lambda>dir. None), WriteFile = (\<lambda>path content. None)\<rparr>"

text \<open>
  Three bodies and the values a JSON reader gives them: the empty object, the empty
  array, and an object that has an error list and no data.
\<close>

definition body_errors_only :: string where
  \<open>body_errors_only = ''{"errors":[{"message":"boom"}]}''\<close>

definition json_errors_only :: json where
  "json_errors_only = JObject [(''errors'', JArray [JObject [(''message'', JString ''boom'')]])]"

definition sample_parse :: "string \<Rightarrow> json option" where
  "sample_parse =
     parse_table [(''{}'', JObject []), (''[]'', JArray []), (body_errors_only, json_errors_only)]"

definition zero_StatsCard :: StatsCard where
  "zero_StatsCard =
     \<lparr>TotalStars = 0, TotalCommits = 0, TotalPRs = 0, TotalIssues = 0, ContributedTo = 0,
      TotalContributions = 0\<rparr>"

section \<open>Properties of fetchStats\<close>

lemma canonical_Remaining:
  "CanonicalMIMEHeaderKey ''X-RateLimit-Remaining'' = ''X-Ratelimit-Remaining''"
  by (simp add: CanonicalMIMEHeaderKey_def validHeaderFieldByte_def isDigit_def isLower_def
      isUpper_def toUpper_def toLower_def)

lemma canonical_Reset:
  "CanonicalMIMEHeaderKey ''X-RateLimit-Reset'' = ''X-Ratelimit-Reset''"
  by (simp add: CanonicalMIMEHeaderKey_def validHeaderFieldByte_def isDigit_def isLower_def
      isUpper_def toUpper_def toLower_def)

lemma limited_headers_Get:
  "Header_Get limited_headers ''X-RateLimit-Remaining'' = ''0''"
  "Header_Get limited_headers ''X-RateLimit-Reset'' = ''1699999999''"
  by (simp_all add: Header_Get_def limited_headers_def canonical_Remaining canonical_Reset)

lemma no_headers_Get: "Header_Get no_headers key = []"
  by (simp add: Header_Get_def no_headers_def)

text \<open>Once the round trip has completed, the outcome is decided by lines 212-244.\<close>

lemma fetchStats_Completed:
  "Do (build_request config) = Completed resp \<Longrightarrow>
   fetchStats parse Do config =
     (if StatusCode resp \<noteq> 200
      then Inl (UnexpectedStatus (StatusCode resp) (Body resp))
      else if Header_Get (Header resp) ''X-RateLimit-Remaining'' = ''0''
      then Inl (RateLimitExceeded (Header_Get (Header resp) ''X-RateLimit-Reset''))
      else (case Unmarshal parse (Body resp) of
              Inl e \<Rightarrow> Inl (UnmarshalResponse e)
            | Inr result \<Rightarrow>
                if length (Errors result) > 0
                then Inl (GraphQLErrors (Errors result))
                else Inr (statsCard result)))"
  by (simp add: fetchStats_def json_Marshal_def NewRequestWithContext_def)

lemma fetchStats_DoFailed:
  "Do (build_request config) = DoFailed e \<Longrightarrow> fetchStats parse Do config = Inl (ExecuteRequest e)"
  by (simp add: fetchStats_def json_Marshal_def NewRequestWithContext_def)

lemma fetchStats_ReadFailed:
  "Do (build_request config) = ReadFailed e \<Longrightarrow> fetchStats parse Do config = Inl (ReadResponse e)"
  by (simp add: fetchStats_def json_Marshal_def NewRequestWithContext_def)

text \<open>
  C8, as amended. The claim as stated leaves the status code open, and a response
  with status 403 and the same two headers is reported as a status error
  (\<open>rate_limit_needs_status_200_counterexample\<close>). For a response with status 200 whose
  \<^verbatim>\<open>X-RateLimit-Remaining\<close> is \<^verbatim>\<open>0\<close>, \<^verbatim>\<open>fetchStats\<close> reports the rate-limit error, and the
  error carries the value of \<^verbatim>\<open>X-RateLimit-Reset\<close> unchanged; the witness is the value
  \<^verbatim>\<open>1699999999\<close> of the claim.
\<close>

theorem rate_limit_reset_verbatim:
  assumes "Do (build_request config) = Completed resp"
    and "StatusCode resp = 200"
    and "Header_Get (Header resp) ''X-RateLimit-Remaining'' = ''0''"
    and "Header_Get (Header resp) ''X-RateLimit-Reset'' = r"
  shows "fetchStats parse Do config = Inl (RateLimitExceeded r)"
  using assms by (simp add: fetchStats_Completed)

theorem rate_limit_reset_verbatim_witness:
  "fetchStats (parse_table []) (reply (Completed limited_200)) sample_config
     = Inl (RateLimitExceeded ''1699999999'')"
  using rate_limit_reset_verbatim
    [of "reply (Completed limited_200)" sample_config limited_200 "''1699999999''" "parse_table []"]
  by (simp add: limited_headers_Get reply_def limited_200_def)

theorem rate_limit_needs_status_200_counterexample:
  "Header_Get (Header limited_403) ''X-RateLimit-Remaining'' = ''0''
   \<and> Header_Get (Header limited_403) ''X-RateLimit-Reset'' = ''1699999999''
   \<and> fetchStats (parse_table []) (reply (Completed limited_403)) sample_config
       = Inl (UnexpectedStatus 403 ''slow down'')"
  by (simp add: fetchStats_Completed limited_headers_Get reply_def limited_403_def)

text \<open>
  C10. A completed response whose status is not 200 is reported as the status error,
  whatever its headers say; and whenever \<^verbatim>\<open>fetchStats\<close> reports the rate-limit error,
  the round trip completed with status 200 and \<^verbatim>\<open>X-RateLimit-Remaining\<close> equal to \<^verbatim>\<open>0\<close>.
\<close>

theorem status_check_precedes_rate_limit:
  "(Do (build_request config) = Completed resp \<and> StatusCode resp \<noteq> 200 \<longrightarrow>
      fetchStats parse Do config = Inl (UnexpectedStatus (StatusCode resp) (Body resp)))
   \<and> (fetchStats parse Do config = Inl (RateLimitExceeded r) \<longrightarrow>
        (\<exists>resp'. Do (build_request config) = Completed resp' \<and> StatusCode resp' = 200
           \<and> Header_Get (Header resp') ''X-RateLimit-Remaining'' = ''0''
           \<and> Header_Get (Header resp') ''X-RateLimit-Reset'' = r))"
proof (intro conjI impI)
  assume "Do (build_request config) = Completed resp \<and> StatusCode resp \<noteq> 200"
  then show "fetchStats parse Do config = Inl (UnexpectedStatus (StatusCode resp) (Body resp))"
    by (simp add: fetchStats_Completed)
next
  assume rl: "fetchStats parse Do config = Inl (RateLimitExceeded r)"
  show "\<exists>resp'. Do (build_request config) = Completed resp' \<and> StatusCode resp' = 200
           \<and> Header_Get (Header resp') ''X-RateLimit-Remaining'' = ''0''
           \<and> Header_Get (Header resp') ''X-RateLimit-Reset'' = r"
  proof (cases "Do (build_request config)")
    case (DoFailed e)
    with rl show ?thesis by (simp add: fetchStats_DoFailed)
  next
    case (ReadFailed e)
    with rl show ?thesis by (simp add: fetchStats_ReadFailed)
  next
    case (Completed resp')
    with rl show ?thesis
      by (auto simp: fetchStats_Completed split: if_splits sum.splits)
  qed
qed

theorem status_check_precedes_rate_limit_witness:
  "StatusCode limited_403 \<noteq> 200
   \<and> Header_Get (Header limited_403) ''X-RateLimit-Remaining'' = ''0''
   \<and> fetchStats (parse_table []) (reply (Completed limited_403)) sample_config
       = Inl (UnexpectedStatus 403 ''slow down'')
   \<and> fetchStats (parse_table []) (reply (Completed limited_200)) sample_config
       = Inl (RateLimitExceeded ''1699999999'')
   \<and> StatusCode limited_200 = 200"
proof -
  have a: "reply (Completed limited_403) (build_request sample_config) = Completed limited_403
           \<and> StatusCode limited_403 \<noteq> 200"
    by (simp add: reply_def limited_403_def)
  have b: "fetchStats (parse_table []) (reply (Completed limited_200)) sample_config
             = Inl (RateLimitExceeded ''1699999999'')"
    by (simp add: fetchStats_Completed reply_def limited_200_def limited_headers_Get)
  from status_check_precedes_rate_limit
    [of "reply (Completed limited_403)" sample_config limited_403 "parse_table []" "''1699999999''"]
    a
  have c: "fetchStats (parse_table []) (reply (Completed limited_403)) sample_config
             = Inl (UnexpectedStatus (StatusCode limited_403) (Body limited_403))"
    by blast
  from status_check_precedes_rate_limit
    [of "reply (Completed limited_200)" sample_config limited_200 "parse_table []" "''1699999999''"]
    b
  have d: "\<exists>resp'. reply (Completed limited_200) (build_request sample_config) = Completed resp'
             \<and> StatusCode resp' = 200"
    by blast
  from d have e: "StatusCode limited_200 = 200"
    by (auto simp: reply_def)
  from a b c e show ?thesis
    by (simp add: limited_403_def limited_headers_Get)
qed

lemma foldName_fields:
  "foldName ''data'' = ''DATA''"
  "foldName ''errors'' = ''ERRORS''"
  "foldName ''user'' = ''USER''"
  "foldName ''message'' = ''MESSAGE''"
  "foldName ''type'' = ''TYPE''"
  "foldName ''contributionsCollection'' = ''CONTRIBUTIONSCOLLECTION''"
  "foldName ''repositoriesContributedTo'' = ''REPOSITORIESCONTRIBUTEDTO''"
  "foldName ''repositories'' = ''REPOSITORIES''"
  "foldName ''nodes'' = ''NODES''"
  "foldName ''stargazerCount'' = ''STARGAZERCOUNT''"
  "foldName ''totalCount'' = ''TOTALCOUNT''"
  "foldName ''totalCommitContributions'' = ''TOTALCOMMITCONTRIBUTIONS''"
  "foldName ''totalIssueContributions'' = ''TOTALISSUECONTRIBUTIONS''"
  "foldName ''totalPullRequestContributions'' = ''TOTALPULLREQUESTCONTRIBUTIONS''"
  "foldName ''contributionCalendar'' = ''CONTRIBUTIONCALENDAR''"
  "foldName ''totalContributions'' = ''TOTALCONTRIBUTIONS''"
  by (simp_all add: toUpper_def)

text \<open>
  C1, as amended. A completed response with status 200, whose \<^verbatim>\<open>X-RateLimit-Remaining\<close>
  is not \<^verbatim>\<open>0\<close> and whose body decodes to a payload with an empty error list, yields the
  card of that payload. Every error that \<^verbatim>\<open>fetchStats\<close> returns belongs to exactly one
  class (\<open>failure_of\<close> is a function), and the class is decided by the round trip:
  transport failure, status other than 200, exhausted rate limit, a body that does
  not decode, or a non-empty GraphQL error list. The fourth of these is missing from
  the claim as stated (\<open>decode_failure_is_fifth_class_counterexample\<close>).
\<close>

theorem fetchStats_outcome_classes:
  "(Do (build_request config) = Completed resp \<and> StatusCode resp = 200
      \<and> Header_Get (Header resp) ''X-RateLimit-Remaining'' \<noteq> ''0''
      \<and> Unmarshal parse (Body resp) = Inr result \<and> Errors result = []
    \<longrightarrow> fetchStats parse Do config = Inr (statsCard result))
   \<and> (fetchStats parse Do config = Inl e \<longrightarrow>
        (failure_of e = Some TransportFailure
           \<and> (\<exists>m. Do (build_request config) = DoFailed m \<or> Do (build_request config) = ReadFailed m))
      \<or> (failure_of e = Some NonSuccessStatus
           \<and> (\<exists>r. Do (build_request config) = Completed r \<and> StatusCode r \<noteq> 200))
      \<or> (failure_of e = Some RateLimitExhaustion
           \<and> (\<exists>r. Do (build_request config) = Completed r \<and> StatusCode r = 200
                 \<and> Header_Get (Header r) ''X-RateLimit-Remaining'' = ''0''))
      \<or> (failure_of e = Some DecodeFailure
           \<and> (\<exists>r d. Do (build_request config) = Completed r \<and> StatusCode r = 200
                 \<and> Header_Get (Header r) ''X-RateLimit-Remaining'' \<noteq> ''0''
                 \<and> Unmarshal parse (Body r) = Inl d))
      \<or> (failure_of e = Some GraphQLFailure
           \<and> (\<exists>r g. Do (build_request config) = Completed r \<and> StatusCode r = 200
                 \<and> Header_Get (Header r) ''X-RateLimit-Remaining'' \<noteq> ''0''
                 \<and> Unmarshal parse (Body r) = Inr g \<and> Errors g \<noteq> [])))"
proof (intro conjI impI)
  assume "Do (build_request config) = Completed resp \<and> StatusCode resp = 200
      \<and> Header_Get (Header resp) ''X-RateLimit-Remaining'' \<noteq> ''0''
      \<and> Unmarshal parse (Body resp) = Inr result \<and> Errors result = []"
  then show "fetchStats parse Do config = Inr (statsCard result)"
    by (simp add: fetchStats_Completed)
next
  assume f: "fetchStats parse Do config = Inl e"
  show "(failure_of e = Some TransportFailure
           \<and> (\<exists>m. Do (build_request config) = DoFailed m \<or> Do (build_request config) = ReadFailed m))
      \<or> (failure_of e = Some NonSuccessStatus
           \<and> (\<exists>r. Do (build_request config) = Completed r \<and> StatusCode r \<noteq> 200))
      \<or> (failure_of e = Some RateLimitExhaustion
           \<and> (\<exists>r. Do (build_request config) = Completed r \<and> StatusCode r = 200
                 \<and> Header_Get (Header r) ''X-RateLimit-Remaining'' = ''0''))
      \<or> (failure_of e = Some DecodeFailure
           \<and> (\<exists>r d. Do (build_request config) = Completed r \<and> StatusCode r = 200
                 \<and> Header_Get (Header r) ''X-RateLimit-Remaining'' \<noteq> ''0''
                 \<and> Unmarshal parse (Body r) = Inl d))
      \<or> (failure_of e = Some GraphQLFailure
           \<and> (\<exists>r g. Do (build_request config) = Completed r \<and> StatusCode r = 200
                 \<and> Header_Get (Header r) ''X-RateLimit-Remaining'' \<noteq> ''0''
                 \<and> Unmarshal parse (Body r) = Inr g \<and> Errors g \<noteq> []))"
  proof (cases "Do (build_request config)")
    case (DoFailed m)
    with f show ?thesis by (auto simp: fetchStats_DoFailed)
  next
    case (ReadFailed m)
    with f show ?thesis by (auto simp: fetchStats_ReadFailed)
  next
    case (Completed r)
    with f show ?thesis
      by (auto simp: fetchStats_Completed split: if_splits sum.splits)
  qed
qed

lemma Unmarshal_empty_object:
  "Unmarshal (parse_table [(''{}'', JObject [])]) ''{}'' = Inr zero_GitHubResponse"
  by (simp add: Unmarshal_def parse_table_def decode_struct_def)

lemma Unmarshal_not_json:
  "Unmarshal (parse_table [(''{}'', JObject [])]) ''<html>'' = Inl SyntaxError"
  by (simp add: Unmarshal_def parse_table_def)

theorem fetchStats_outcome_classes_witness:
  "fetchStats (parse_table [(''{}'', JObject [])]) (reply (Completed (plain_200 ''{}''))) sample_config
     = Inr (statsCard zero_GitHubResponse)
   \<and> fetchStats (parse_table [(''{}'', JObject [])]) (reply (Completed (plain_200 ''<html>''))) sample_config
     = Inl (UnmarshalResponse SyntaxError)
   \<and> failure_of (UnmarshalResponse SyntaxError) = Some DecodeFailure"
proof -
  have a: "fetchStats (parse_table [(''{}'', JObject [])]) (reply (Completed (plain_200 ''<html>''))) sample_config
     = Inl (UnmarshalResponse SyntaxError)"
    by (simp add: fetchStats_Completed reply_def plain_200_def no_headers_Get Unmarshal_not_json)
  have b: "reply (Completed (plain_200 ''{}'')) (build_request sample_config) = Completed (plain_200 ''{}'')
      \<and> StatusCode (plain_200 ''{}'') = 200
      \<and> Header_Get (Header (plain_200 ''{}'')) ''X-RateLimit-Remaining'' \<noteq> ''0''
      \<and> Unmarshal (parse_table [(''{}'', JObject [])]) (Body (plain_200 ''{}'')) = Inr zero_GitHubResponse
      \<and> Errors zero_GitHubResponse = []"
    by (simp add: reply_def plain_200_def no_headers_Get Unmarshal_empty_object zero_GitHubResponse_def)
  from fetchStats_outcome_classes
    [of "reply (Completed (plain_200 ''{}''))" sample_config "plain_200 ''{}''"
        "parse_table [(''{}'', JObject [])]" zero_GitHubResponse "UnmarshalResponse SyntaxError"] b
  have c: "fetchStats (parse_table [(''{}'', JObject [])]) (reply (Completed (plain_200 ''{}''))) sample_config
     = Inr (statsCard zero_GitHubResponse)"
    by blast
  from fetchStats_outcome_classes
    [of "reply (Completed (plain_200 ''<html>''))" sample_config "plain_200 ''<html>''"
        "parse_table [(''{}'', JObject [])]" zero_GitHubResponse "UnmarshalResponse SyntaxError"] a
  have d: "failure_of (UnmarshalResponse SyntaxError) = Some DecodeFailure"
    by simp
  from a c d show ?thesis by simp
qed

theorem decode_failure_is_fifth_class_counterexample:
  "StatusCode (plain_200 ''<html>'') = 200
   \<and> Header_Get (Header (plain_200 ''<html>'')) ''X-RateLimit-Remaining'' \<noteq> ''0''
   \<and> fetchStats (parse_table []) (reply (Completed (plain_200 ''<html>''))) sample_config
       = Inl (UnmarshalResponse SyntaxError)
   \<and> spec_kind (UnmarshalResponse SyntaxError) = None"
  by (simp add: fetchStats_Completed reply_def plain_200_def no_headers_Get Unmarshal_def
      parse_table_def spec_kind_def)

section \<open>The aggregation (lines 232-244)\<close>

lemma totalStars_sum_list:
  "totalStars repos acc = acc + sum_list (map StargazerCount repos)"
  by (induction repos arbitrary: acc) (simp_all add: add.assoc)

lemma word_of_int_sum_sint:
  fixes ws :: "go_int list"
  shows "word_of_int (sum_list (map sint ws)) = sum_list ws"
  by (induction ws) simp_all

lemma sint_sum_list_exact:
  fixes ws :: "go_int list"
  shows "sint (sum_list ws) = signed_take_bit 63 (sum_list (map sint ws))"
proof -
  have "sint (sum_list ws) = sint (word_of_int (sum_list (map sint ws)) :: go_int)"
    by (simp add: word_of_int_sum_sint)
  also have "\<dots> = signed_take_bit 63 (sum_list (map sint ws))"
    by (simp add: signed_of_int)
  finally show ?thesis .
qed

text \<open>
  C2. \<^verbatim>\<open>TotalStars\<close> is the sum of \<^verbatim>\<open>StargazerCount\<close> over the nodes of the payload. The
  sum is the one the loop computes, Go's addition on \<^verbatim>\<open>int\<close>; it is the sum of the
  integers themselves whenever that sum fits into 64 bits (\<open>overflow_example\<close> shows
  what happens beyond). For the two nodes with 10 and 5 stars it is 15.
\<close>

theorem totalStars_is_sum:
  "TotalStars (statsCard result)
     = sum_list (map StargazerCount (Nodes (Repositories (User (Data result)))))
   \<and> (- (2 ^ 63) \<le> (\<Sum>n\<leftarrow>Nodes (Repositories (User (Data result))). sint (StargazerCount n))
        \<and> (\<Sum>n\<leftarrow>Nodes (Repositories (User (Data result))). sint (StargazerCount n)) < 2 ^ 63
      \<longrightarrow> sint (TotalStars (statsCard result))
            = (\<Sum>n\<leftarrow>Nodes (Repositories (User (Data result))). sint (StargazerCount n)))
   \<and> TotalStars (statsCard (payload_with_nodes [node 10, node 5])) = 15"
proof (intro conjI impI)
  show a: "TotalStars (statsCard result)
     = sum_list (map StargazerCount (Nodes (Repositories (User (Data result)))))"
    by (simp add: statsCard_def totalStars_sum_list)
  show "TotalStars (statsCard (payload_with_nodes [node 10, node 5])) = 15"
    by (simp add: statsCard_def payload_with_nodes_def node_def)
  assume r: "- (2 ^ 63) \<le> (\<Sum>n\<leftarrow>Nodes (Repositories (User (Data result))). sint (StargazerCount n))
        \<and> (\<Sum>n\<leftarrow>Nodes (Repositories (User (Data result))). sint (StargazerCount n)) < 2 ^ 63"
  have "sint (TotalStars (statsCard result))
      = signed_take_bit 63 (\<Sum>n\<leftarrow>Nodes (Repositories (User (Data result))). sint (StargazerCount n))"
    by (simp add: a sint_sum_list_exact comp_def)
  also have "\<dots> = (\<Sum>n\<leftarrow>Nodes (Repositories (User (Data result))). sint (StargazerCount n))"
    using r by (simp add: signed_take_bit_int_eq_self)
  finally show "sint (TotalStars (statsCard result))
            = (\<Sum>n\<leftarrow>Nodes (Repositories (User (Data result))). sint (StargazerCount n))" .
qed

theorem totalStars_is_sum_witness:
  "sint (TotalStars (statsCard (payload_with_nodes [node 10, node 5]))) = 15
   \<and> (\<Sum>n\<leftarrow>[node 10, node 5]. sint (StargazerCount n)) = 15"
  using totalStars_is_sum [of "payload_with_nodes [node 10, node 5]"]
  by (simp add: payload_with_nodes_def node_def)

lemma overflow_example:
  "sint (TotalStars (statsCard (payload_with_nodes [node (2 ^ 62), node (2 ^ 62)]))) = - (2 ^ 63)"
  by (simp add: statsCard_def payload_with_nodes_def node_def)


section \<open>Keys that are absent from the body\<close>

lemma store_Inr_iff: "store upd r = Inr y \<longleftrightarrow> (\<exists>x. r = Inr x \<and> y = upd x)"
  by (cases r) (auto simp: store_def)

lemma decode_fields_invariant:
  assumes "decode_fields f kvs v = Inr v'" and "P v"
    and "\<And>k j u u'. (k, j) \<in> set kvs \<Longrightarrow> P u \<Longrightarrow> f (foldName k) j u = Inr u' \<Longrightarrow> P u'"
  shows "P v'"
  using assms
proof (induction kvs arbitrary: v)
  case Nil
  then show ?case by simp
next
  case (Cons kv kvs)
  obtain k j where kv: "kv = (k, j)" by (cases kv)
  from Cons.prems(1) kv obtain u
    where u: "f (foldName k) j v = Inr u" and rest: "decode_fields f kvs u = Inr v'"
    by (auto split: sum.splits)
  have Pu: "P u"
    using Cons.prems(3) [of k j v u] Cons.prems(2) u kv by simp
  show ?case
  proof (rule Cons.IH [OF rest Pu])
    fix k' j' w w'
    assume "(k', j') \<in> set kvs" and "P w" and "f (foldName k') j' w = Inr w'"
    then show "P w'"
      using Cons.prems(3) [of k' j' w w'] by simp
  qed
qed

lemma member_JObject:
  "(k, jv) \<in> set kvs \<Longrightarrow> foldName k = foldName name \<Longrightarrow> jv \<in> set (member name (JObject kvs))"
  by (force simp: member_def)

text \<open>
  The two shapes of step: a key that selects the field on the path decodes into it
  from a value under which the rest of the path is absent; any other key leaves the
  field alone.
\<close>

lemma preservesI:
  assumes "\<And>kvs k jv u u'. (k, jv) \<in> set kvs \<Longrightarrow> lookup_path p (JObject kvs) = [] \<Longrightarrow> Q u
             \<Longrightarrow> field (foldName k) jv u = Inr u' \<Longrightarrow> Q u'"
  shows "preserves field p Q"
  unfolding preserves_def
proof (intro allI impI)
  fix j v v'
  assume absent: "lookup_path p j = []" and Q: "Q v" and dec: "decode_struct field j v = Inr v'"
  show "Q v'"
  proof (cases j)
    case (JObject kvs)
    with dec have "decode_fields field kvs v = Inr v'"
      by (simp add: decode_struct_def)
    then show ?thesis
      using Q
    proof (rule decode_fields_invariant)
      fix k jv u u'
      assume "(k, jv) \<in> set kvs" and "Q u" and "field (foldName k) jv u = Inr u'"
      then show "Q u'"
        using assms [of k jv kvs u u'] absent JObject by simp
    qed
  qed (use dec Q in \<open>simp_all add: decode_struct_def\<close>)
qed

lemma preservesD:
  "preserves field p Q \<Longrightarrow> lookup_path p j = [] \<Longrightarrow> Q v \<Longrightarrow> decode_struct field j v = Inr v' \<Longrightarrow> Q v'"
  unfolding preserves_def by blast

lemma absent_below:
  "lookup_path (name # p) (JObject kvs) = [] \<Longrightarrow> (k, jv) \<in> set kvs
     \<Longrightarrow> foldName k = foldName name \<Longrightarrow> lookup_path p jv = []"
  using member_JObject [of k jv kvs name] by simp

lemma absent_leaf:
  "lookup_path [name] (JObject kvs) = [] \<Longrightarrow> (k, jv) \<in> set kvs \<Longrightarrow> foldName k \<noteq> foldName name"
  using member_JObject [of k jv kvs name] by auto

lemma level_Data:
  assumes "preserves field_Data p Q"
  shows "preserves field_GitHubResponse (''data'' # p) (\<lambda>r. Q (Data r))"
proof (rule preservesI)
  fix kvs k jv u u'
  assume mem: "(k, jv) \<in> set kvs" and absent: "lookup_path (''data'' # p) (JObject kvs) = []"
    and Qu: "Q (Data u)" and f: "field_GitHubResponse (foldName k) jv u = Inr u'"
  show "Q (Data u')"
  proof (cases "foldName k = foldName ''data''")
    case True
    with absent mem have a: "lookup_path p jv = []"
      by (simp only: absent_below)
    from f True obtain x where "decode_struct field_Data jv (Data u) = Inr x" and "Data u' = x"
      by (auto simp: field_GitHubResponse_def store_Inr_iff foldName_fields)
    with preservesD [OF assms a Qu] show ?thesis by simp
  next
    case False
    with f have "Data u' = Data u"
      by (auto simp: field_GitHubResponse_def store_Inr_iff split: if_splits)
    with Qu show ?thesis by simp
  qed
qed

lemma level_User:
  assumes "preserves field_User p Q"
  shows "preserves field_Data (''user'' # p) (\<lambda>r. Q (User r))"
proof (rule preservesI)
  fix kvs k jv u u'
  assume mem: "(k, jv) \<in> set kvs" and absent: "lookup_path (''user'' # p) (JObject kvs) = []"
    and Qu: "Q (User u)" and f: "field_Data (foldName k) jv u = Inr u'"
  show "Q (User u')"
  proof (cases "foldName k = foldName ''user''")
    case True
    with absent mem have a: "lookup_path p jv = []"
      by (simp only: absent_below)
    from f True obtain x where "decode_struct field_User jv (User u) = Inr x" and "User u' = x"
      by (auto simp: field_Data_def store_Inr_iff foldName_fields)
    with preservesD [OF assms a Qu] show ?thesis by simp
  next
    case False
    with f have "User u' = User u"
      by (auto simp: field_Data_def store_Inr_iff split: if_splits)
    with Qu show ?thesis by simp
  qed
qed

lemma level_ContributionsCollection:
  assumes "preserves field_ContributionsCollection p Q"
  shows "preserves field_User (''contributionsCollection'' # p) (\<lambda>r. Q (ContributionsCollection r))"
proof (rule preservesI)
  fix kvs k jv u u'
  assume mem: "(k, jv) \<in> set kvs" and absent: "lookup_path (''contributionsCollection'' # p) (JObject kvs) = []"
    and Qu: "Q (ContributionsCollection u)" and f: "field_User (foldName k) jv u = Inr u'"
  show "Q (ContributionsCollection u')"
  proof (cases "foldName k = foldName ''contributionsCollection''")
    case True
    with absent mem have a: "lookup_path p jv = []"
      by (simp only: absent_below)
    from f True obtain x where "decode_struct field_ContributionsCollection jv (ContributionsCollection u) = Inr x" and "ContributionsCollection u' = x"
      by (auto simp: field_User_def store_Inr_iff foldName_fields)
    with preservesD [OF assms a Qu] show ?thesis by simp
  next
    case False
    with f have "ContributionsCollection u' = ContributionsCollection u"
      by (auto simp: field_User_def store_Inr_iff split: if_splits)
    with Qu show ?thesis by simp
  qed
qed

lemma level_RepositoriesContributedTo:
  assumes "preserves field_RepositoriesContributedTo p Q"
  shows "preserves field_User (''repositoriesContributedTo'' # p) (\<lambda>r. Q (RepositoriesContributedTo r))"
proof (rule preservesI)
  fix kvs k jv u u'
  assume mem: "(k, jv) \<in> set kvs" and absent: "lookup_path (''repositoriesContributedTo'' # p) (JObject kvs) = []"
    and Qu: "Q (RepositoriesContributedTo u)" and f: "field_User (foldName k) jv u = Inr u'"
  show "Q (RepositoriesContributedTo u')"
  proof (cases "foldName k = foldName ''repositoriesContributedTo''")
    case True
    with absent mem have a: "lookup_path p jv = []"
      by (simp only: absent_below)
    from f True obtain x where "decode_struct field_RepositoriesContributedTo jv (RepositoriesContributedTo u) = Inr x" and "RepositoriesContributedTo u' = x"
      by (auto simp: field_User_def store_Inr_iff foldName_fields)
    with preservesD [OF assms a Qu] show ?thesis by simp
  next
    case False
    with f have "RepositoriesContributedTo u' = RepositoriesContributedTo u"
      by (auto simp: field_User_def store_Inr_iff split: if_splits)
    with Qu show ?thesis by simp
  qed
qed

lemma level_Repositories:
  assumes "preserves field_Repositories p Q"
  shows "preserves field_User (''repositories'' # p) (\<lambda>r. Q (Repositories r))"
proof (rule preservesI)
  fix kvs k jv u u'
  assume mem: "(k, jv) \<in> set kvs" and absent: "lookup_path (''repositories'' # p) (JObject kvs) = []"
    and Qu: "Q (Repositories u)" and f: "field_User (foldName k) jv u = Inr u'"
  show "Q (Repositories u')"
  proof (cases "foldName k = foldName ''repositories''")
    case True
    with absent mem have a: "lookup_path p jv = []"
      by (simp only: absent_below)
    from f True obtain x where "decode_struct field_Repositories jv (Repositories u) = Inr x" and "Repositories u' = x"
      by (auto simp: field_User_def store_Inr_iff foldName_fields)
    with preservesD [OF assms a Qu] show ?thesis by simp
  next
    case False
    with f have "Repositories u' = Repositories u"
      by (auto simp: field_User_def store_Inr_iff split: if_splits)
    with Qu show ?thesis by simp
  qed
qed

lemma level_ContributionCalendar:
  assumes "preserves field_ContributionCalendar p Q"
  shows "preserves field_ContributionsCollection (''contributionCalendar'' # p) (\<lambda>r. Q (ContributionCalendar r))"
proof (rule preservesI)
  fix kvs k jv u u'
  assume mem: "(k, jv) \<in> set kvs" and absent: "lookup_path (''contributionCalendar'' # p) (JObject kvs) = []"
    and Qu: "Q (ContributionCalendar u)" and f: "field_ContributionsCollection (foldName k) jv u = Inr u'"
  show "Q (ContributionCalendar u')"
  proof (cases "foldName k = foldName ''contributionCalendar''")
    case True
    with absent mem have a: "lookup_path p jv = []"
      by (simp only: absent_below)
    from f True obtain x where "decode_struct field_ContributionCalendar jv (ContributionCalendar u) = Inr x" and "ContributionCalendar u' = x"
      by (auto simp: field_ContributionsCollection_def store_Inr_iff foldName_fields)
    with preservesD [OF assms a Qu] show ?thesis by simp
  next
    case False
    with f have "ContributionCalendar u' = ContributionCalendar u"
      by (auto simp: field_ContributionsCollection_def store_Inr_iff split: if_splits)
    with Qu show ?thesis by simp
  qed
qed

lemma leaf_TotalCommitContributions:
  "preserves field_ContributionsCollection [''totalCommitContributions''] (\<lambda>r. TotalCommitContributions r = 0)"
proof (rule preservesI)
  fix kvs k jv u u'
  assume mem: "(k, jv) \<in> set kvs" and absent: "lookup_path [''totalCommitContributions''] (JObject kvs) = []"
    and Qu: "(\<lambda>r. TotalCommitContributions r = 0) u" and f: "field_ContributionsCollection (foldName k) jv u = Inr u'"
  from absent mem have "foldName k \<noteq> foldName ''totalCommitContributions''"
    by (rule absent_leaf)
  with f Qu show "(\<lambda>r. TotalCommitContributions r = 0) u'"
    by (auto simp: field_ContributionsCollection_def store_Inr_iff split: if_splits)
qed

lemma leaf_TotalIssueContributions:
  "preserves field_ContributionsCollection [''totalIssueContributions''] (\<lambda>r. TotalIssueContributions r = 0)"
proof (rule preservesI)
  fix kvs k jv u u'
  assume mem: "(k, jv) \<in> set kvs" and absent: "lookup_path [''totalIssueContributions''] (JObject kvs) = []"
    and Qu: "(\<lambda>r. TotalIssueContributions r = 0) u" and f: "field_ContributionsCollection (foldName k) jv u = Inr u'"
  from absent mem have "foldName k \<noteq> foldName ''totalIssueContributions''"
    by (rule absent_leaf)
  with f Qu show "(\<lambda>r. TotalIssueContributions r = 0) u'"
    by (auto simp: field_ContributionsCollection_def store_Inr_iff split: if_splits)
qed

lemma leaf_TotalPullRequestContributions:
  "preserves field_ContributionsCollection [''totalPullRequestContributions''] (\<lambda>r. TotalPullRequestContributions r = 0)"
proof (rule preservesI)
  fix kvs k jv u u'
  assume mem: "(k, jv) \<in> set kvs" and absent: "lookup_path [''totalPullRequestContributions''] (JObject kvs) = []"
    and Qu: "(\<lambda>r. TotalPullRequestContributions r = 0) u" and f: "field_ContributionsCollection (foldName k) jv u = Inr u'"
  from absent mem have "foldName k \<noteq> foldName ''totalPullRequestContributions''"
    by (rule absent_leaf)
  with f Qu show "(\<lambda>r. TotalPullRequestContributions r = 0) u'"
    by (auto simp: field_ContributionsCollection_def store_Inr_iff split: if_splits)
qed

lemma leaf_TotalCount:
  "preserves field_RepositoriesContributedTo [''totalCount''] (\<lambda>r. TotalCount r = 0)"
proof (rule preservesI)
  fix kvs k jv u u'
  assume mem: "(k, jv) \<in> set kvs" and absent: "lookup_path [''totalCount''] (JObject kvs) = []"
    and Qu: "(\<lambda>r. TotalCount r = 0) u" and f: "field_RepositoriesContributedTo (foldName k) jv u = Inr u'"
  from absent mem have "foldName k \<noteq> foldName ''totalCount''"
    by (rule absent_leaf)
  with f Qu show "(\<lambda>r. TotalCount r = 0) u'"
    by (auto simp: field_RepositoriesContributedTo_def store_Inr_iff split: if_splits)
qed

lemma leaf_TotalContributions:
  "preserves field_ContributionCalendar [''totalContributions''] (\<lambda>r. GitHubResponse_ContributionCalendar.TotalContributions r = 0)"
proof (rule preservesI)
  fix kvs k jv u u'
  assume mem: "(k, jv) \<in> set kvs" and absent: "lookup_path [''totalContributions''] (JObject kvs) = []"
    and Qu: "(\<lambda>r. GitHubResponse_ContributionCalendar.TotalContributions r = 0) u" and f: "field_ContributionCalendar (foldName k) jv u = Inr u'"
  from absent mem have "foldName k \<noteq> foldName ''totalContributions''"
    by (rule absent_leaf)
  with f Qu show "(\<lambda>r. GitHubResponse_ContributionCalendar.TotalContributions r = 0) u'"
    by (auto simp: field_ContributionCalendar_def store_Inr_iff split: if_splits)
qed

lemma leaf_Nodes:
  "preserves field_Repositories [''nodes''] (\<lambda>r. Nodes r = [])"
proof (rule preservesI)
  fix kvs k jv u u'
  assume mem: "(k, jv) \<in> set kvs" and absent: "lookup_path [''nodes''] (JObject kvs) = []"
    and Qu: "(\<lambda>r. Nodes r = []) u" and f: "field_Repositories (foldName k) jv u = Inr u'"
  from absent mem have "foldName k \<noteq> foldName ''nodes''"
    by (rule absent_leaf)
  with f Qu show "(\<lambda>r. Nodes r = []) u'"
    by (auto simp: field_Repositories_def store_Inr_iff split: if_splits)
qed

lemmas absent_TotalStars =
  level_Data [OF level_User [OF level_Repositories [OF leaf_Nodes]]]

lemmas absent_TotalCommits =
  level_Data [OF level_User [OF level_ContributionsCollection [OF leaf_TotalCommitContributions]]]

lemmas absent_TotalPRs =
  level_Data [OF level_User [OF level_ContributionsCollection [OF leaf_TotalPullRequestContributions]]]

lemmas absent_TotalIssues =
  level_Data [OF level_User [OF level_ContributionsCollection [OF leaf_TotalIssueContributions]]]

lemmas absent_ContributedTo =
  level_Data [OF level_User [OF level_RepositoriesContributedTo [OF leaf_TotalCount]]]

lemmas absent_TotalContributions =
  level_Data [OF level_User [OF level_ContributionsCollection
    [OF level_ContributionCalendar [OF leaf_TotalContributions]]]]

lemma zero_GitHubResponse_fields:
  "Nodes (Repositories (User (Data zero_GitHubResponse))) = []"
  "TotalCommitContributions (ContributionsCollection (User (Data zero_GitHubResponse))) = 0"
  "TotalPullRequestContributions (ContributionsCollection (User (Data zero_GitHubResponse))) = 0"
  "TotalIssueContributions (ContributionsCollection (User (Data zero_GitHubResponse))) = 0"
  "TotalCount (RepositoriesContributedTo (User (Data zero_GitHubResponse))) = 0"
  "GitHubResponse_ContributionCalendar.TotalContributions
     (ContributionCalendar (ContributionsCollection (User (Data zero_GitHubResponse)))) = 0"
  "Errors zero_GitHubResponse = []"
  by (simp_all add: zero_GitHubResponse_def)

lemma statsCard_zero: "statsCard zero_GitHubResponse = zero_StatsCard"
  by (simp add: statsCard_def zero_GitHubResponse_def zero_StatsCard_def)

text \<open>
  C9, as amended. A body that is JSON may still fail to decode (the array \<^verbatim>\<open>[]\<close> is not
  a struct), and a body without any data field may carry an error list; both are
  reported as errors (\<open>valid_json_without_data_counterexample\<close>). When the body does
  decode and its error list is empty, \<^verbatim>\<open>fetchStats\<close> succeeds, and each field of the card
  whose key path is absent from the body is zero.
\<close>

theorem absent_keys_decode_to_zero:
  assumes "Do (build_request config) = Completed resp"
    and "StatusCode resp = 200"
    and "Header_Get (Header resp) ''X-RateLimit-Remaining'' \<noteq> ''0''"
    and "parse (Body resp) = Some j"
    and "decode_struct field_GitHubResponse j zero_GitHubResponse = Inr result"
    and "Errors result = []"
  shows "\<exists>card. fetchStats parse Do config = Inr card
    \<and> (lookup_path [''data'', ''user'', ''repositories'', ''nodes''] j = []
         \<longrightarrow> TotalStars card = 0)
    \<and> (lookup_path [''data'', ''user'', ''contributionsCollection'', ''totalCommitContributions''] j = []
         \<longrightarrow> TotalCommits card = 0)
    \<and> (lookup_path [''data'', ''user'', ''contributionsCollection'', ''totalPullRequestContributions''] j = []
         \<longrightarrow> TotalPRs card = 0)
    \<and> (lookup_path [''data'', ''user'', ''contributionsCollection'', ''totalIssueContributions''] j = []
         \<longrightarrow> TotalIssues card = 0)
    \<and> (lookup_path [''data'', ''user'', ''repositoriesContributedTo'', ''totalCount''] j = []
         \<longrightarrow> ContributedTo card = 0)
    \<and> (lookup_path [''data'', ''user'', ''contributionsCollection'', ''contributionCalendar'',
                      ''totalContributions''] j = []
         \<longrightarrow> StatsCard.TotalContributions card = 0)"
proof -
  have u: "Unmarshal parse (Body resp) = Inr result"
    using assms(4,5) by (simp add: Unmarshal_def)
  have f: "fetchStats parse Do config = Inr (statsCard result)"
    using assms(1,2,3,6) u by (simp add: fetchStats_Completed)
  note dec = assms(5)
  have "lookup_path [''data'', ''user'', ''repositories'', ''nodes''] j = []
         \<longrightarrow> TotalStars (statsCard result) = 0"
    using preservesD [OF absent_TotalStars _ _ dec]
    by (simp add: statsCard_def zero_GitHubResponse_fields)
  moreover have "lookup_path [''data'', ''user'', ''contributionsCollection'', ''totalCommitContributions''] j = []
         \<longrightarrow> TotalCommits (statsCard result) = 0"
    using preservesD [OF absent_TotalCommits _ _ dec]
    by (simp add: statsCard_def zero_GitHubResponse_fields)
  moreover have "lookup_path [''data'', ''user'', ''contributionsCollection'', ''totalPullRequestContributions''] j = []
         \<longrightarrow> TotalPRs (statsCard result) = 0"
    using preservesD [OF absent_TotalPRs _ _ dec]
    by (simp add: statsCard_def zero_GitHubResponse_fields)
  moreover have "lookup_path [''data'', ''user'', ''contributionsCollection'', ''totalIssueContributions''] j = []
         \<longrightarrow> TotalIssues (statsCard result) = 0"
    using preservesD [OF absent_TotalIssues _ _ dec]
    by (simp add: statsCard_def zero_GitHubResponse_fields)
  moreover have "lookup_path [''data'', ''user'', ''repositoriesContributedTo'', ''totalCount''] j = []
         \<longrightarrow> ContributedTo (statsCard result) = 0"
    using preservesD [OF absent_ContributedTo _ _ dec]
    by (simp add: statsCard_def zero_GitHubResponse_fields)
  moreover have "lookup_path [''data'', ''user'', ''contributionsCollection'', ''contributionCalendar'',
                      ''totalContributions''] j = []
         \<longrightarrow> StatsCard.TotalContributions (statsCard result) = 0"
    using preservesD [OF absent_TotalContributions _ _ dec]
    by (simp add: statsCard_def zero_GitHubResponse_fields)
  ultimately show ?thesis
    using f by simp
qed

lemma sample_parse_simps:
  "sample_parse ''{}'' = Some (JObject [])"
  "sample_parse ''[]'' = Some (JArray [])"
  "sample_parse body_errors_only = Some json_errors_only"
  by (simp_all add: sample_parse_def parse_table_def body_errors_only_def)

theorem absent_keys_decode_to_zero_witness:
  "fetchStats sample_parse (reply (Completed (plain_200 ''{}''))) sample_config = Inr zero_StatsCard"
proof -
  have "\<exists>card. fetchStats sample_parse (reply (Completed (plain_200 ''{}''))) sample_config = Inr card
      \<and> TotalStars card = 0 \<and> TotalCommits card = 0 \<and> TotalPRs card = 0 \<and> TotalIssues card = 0
      \<and> ContributedTo card = 0 \<and> StatsCard.TotalContributions card = 0"
    using absent_keys_decode_to_zero
      [of "reply (Completed (plain_200 ''{}''))" sample_config "plain_200 ''{}''" sample_parse
          "JObject []" zero_GitHubResponse]
    by (simp add: reply_def plain_200_def no_headers_Get sample_parse_simps decode_struct_def
        zero_GitHubResponse_fields member_def)
  then show ?thesis
    by (auto simp: zero_StatsCard_def)
qed

lemma decode_errors_only:
  "decode_struct field_GitHubResponse json_errors_only zero_GitHubResponse
     = Inr (zero_GitHubResponse\<lparr>Errors := [\<lparr>Message = ''boom'', Type = []\<rparr>]\<rparr>)"
  by (simp add: json_errors_only_def decode_struct_def field_GitHubResponse_def foldName_fields
      store_def decode_slice_def field_Error_def decode_string_def zero_Error_def)

theorem valid_json_without_data_counterexample:
  "sample_parse ''[]'' = Some (JArray [])
   \<and> lookup_path [''data''] (JArray []) = []
   \<and> fetchStats sample_parse (reply (Completed (plain_200 ''[]''))) sample_config
       = Inl (UnmarshalResponse UnmarshalTypeError)
   \<and> sample_parse body_errors_only = Some json_errors_only
   \<and> lookup_path [''data''] json_errors_only = []
   \<and> fetchStats sample_parse (reply (Completed (plain_200 body_errors_only))) sample_config
       = Inl (GraphQLErrors [\<lparr>Message = ''boom'', Type = []\<rparr>])"
  by (simp add: fetchStats_Completed reply_def plain_200_def no_headers_Get Unmarshal_def
      sample_parse_simps decode_errors_only member_def)
    (simp add: decode_struct_def json_errors_only_def foldName_fields)

section \<open>The rendered card\<close>

lemma svg_format_segments:
  "svg_format =
     svg_seg0 @ ''%%'' @ svg_seg1 @ ''%d'' @ svg_seg2 @ ''%d'' @ svg_seg3 @ ''%d'' @ svg_seg4
       @ ''%d'' @ svg_seg5 @ ''%d'' @ svg_seg6 @ ''%d'' @ svg_seg7"
  by (simp add: svg_format_def svg_seg0_def svg_seg1_def svg_seg2_def svg_seg3_def svg_seg4_def
      svg_seg5_def svg_seg6_def svg_seg7_def)

lemma svg_segs_plain:
  "CHR ''%'' \<notin> set svg_seg0" "CHR ''%'' \<notin> set svg_seg1" "CHR ''%'' \<notin> set svg_seg2"
  "CHR ''%'' \<notin> set svg_seg3" "CHR ''%'' \<notin> set svg_seg4" "CHR ''%'' \<notin> set svg_seg5"
  "CHR ''%'' \<notin> set svg_seg6" "CHR ''%'' \<notin> set svg_seg7"
  by (simp_all add: svg_seg0_def svg_seg1_def svg_seg2_def svg_seg3_def svg_seg4_def
      svg_seg5_def svg_seg6_def svg_seg7_def)

lemma Sprintf_plain:
  "CHR ''%'' \<notin> set s \<Longrightarrow> f \<noteq> [] \<Longrightarrow> Sprintf (s @ f) args = map_option ((@) s) (Sprintf f args)"
proof (induction s)
  case Nil
  show ?case by (simp add: option.map_ident)
next
  case (Cons c s)
  then have ih: "Sprintf (s @ f) args = map_option ((@) s) (Sprintf f args)" by simp
  have c: "c \<noteq> CHR ''%''" using Cons.prems(1) by auto
  obtain v fs where vfs: "s @ f = v # fs"
    using Cons.prems(2) by (cases "s @ f") auto
  have "Sprintf ((c # s) @ f) args = map_option ((#) c) (Sprintf (s @ f) args)"
    using c vfs by simp
  with ih show ?case
    by (simp add: option.map_comp comp_def)
qed

lemma Sprintf_plain_end:
  "CHR ''%'' \<notin> set s \<Longrightarrow> Sprintf s [] = Some s"
proof (induction s)
  case Nil
  show ?case by simp
next
  case (Cons c s)
  have c: "c \<noteq> CHR ''%''" using Cons.prems by auto
  show ?case
  proof (cases s)
    case Nil
    with c show ?thesis by simp
  next
    case (Cons v fs)
    with c Cons.IH Cons.prems show ?thesis by simp
  qed
qed

lemma Sprintf_seg_percent:
  assumes "CHR ''%'' \<notin> set s" and "Sprintf f args = Some r"
  shows "Sprintf (s @ ''%%'' @ f) args = Some (s @ ''%'' @ r)"
  using assms by (simp add: Sprintf_plain)

lemma Sprintf_seg_d:
  assumes "CHR ''%'' \<notin> set s" and "Sprintf f as = Some r"
  shows "Sprintf (s @ ''%d'' @ f) (a # as) = Some (s @ fmt_d a @ r)"
  using assms by (simp add: Sprintf_plain)

lemma generateStatsCardSVG_text: "generateStatsCardSVG stats = Some (card_text stats)"
  unfolding generateStatsCardSVG_def svg_format_segments card_text_def
  by (intro Sprintf_seg_percent Sprintf_seg_d Sprintf_plain_end svg_segs_plain)


text \<open>The numbers are written with digits and a minus sign only.\<close>

lemma digitChar_digit: "n < 10 \<Longrightarrow> digitChar n \<in> set ''0123456789''"
  using nth_mem [of n "''0123456789''"] by (simp add: digitChar_def)

lemma digits_digit: "set (digits n) \<subseteq> set ''0123456789''"
proof (induction n rule: digits.induct)
  case (1 n)
  show ?case
  proof (cases "n < 10")
    case True
    then show ?thesis
      using digitChar_digit [of n] by (simp add: digits.simps [of n])
  next
    case False
    have "n mod 10 < 10" by simp
    then have "digitChar (n mod 10) \<in> set ''0123456789''"
      by (rule digitChar_digit)
    with False "1.IH" show ?thesis
      by (simp add: digits.simps [of n])
  qed
qed

lemma digits_no_markup: "CHR ''<'' \<notin> set (digits n)"
proof
  assume "CHR ''<'' \<in> set (digits n)"
  then have "CHR ''<'' \<in> set ''0123456789''"
    using digits_digit [of n] by (rule set_mp [rotated])
  then show False by simp
qed

lemma fmt_d_no_markup: "CHR ''<'' \<notin> set (fmt_d v)"
  by (simp add: fmt_d_def digits_no_markup)

section \<open>Both ends of the output\<close>

lemma TrimSpace_id:
  assumes "\<not> isSpace c" and "\<not> isSpace d"
  shows "TrimSpace (c # m @ [d]) = c # m @ [d]"
  using assms by (simp add: TrimSpace_def)

lemma svg_seg0_head: "prefix ''<svg '' svg_seg0"
  by (simp add: svg_seg0_def)

lemma svg_seg7_tail: "svg_seg7 = ''</text>
    </g>
  </g>
'' @ ''</svg>''"
  by (simp add: svg_seg7_def)

text \<open>
  C4. The output begins with the opening \<^verbatim>\<open>svg\<close> tag and, with white space trimmed
  from its ends as the test of the repository does, ends with the closing \<^verbatim>\<open>svg\<close> tag.
\<close>

theorem svg_tags_at_both_ends:
  "\<exists>svg. generateStatsCardSVG stats = Some svg
     \<and> prefix ''<svg '' svg \<and> suffix ''</svg>'' svg \<and> suffix ''</svg>'' (TrimSpace svg)"
proof -
  obtain h where h: "svg_seg0 = ''<svg '' @ h"
    using svg_seg0_head by (auto elim: prefixE)
  define m where "m = h @ ''%'' @ svg_seg1 @ fmt_d (TotalStars stats) @ svg_seg2
       @ fmt_d (TotalCommits stats) @ svg_seg3 @ fmt_d (TotalPRs stats) @ svg_seg4
       @ fmt_d (TotalIssues stats) @ svg_seg5 @ fmt_d (ContributedTo stats) @ svg_seg6
       @ fmt_d (StatsCard.TotalContributions stats) @ ''</text>
    </g>
  </g>
''"
  have shape: "card_text stats = ''<svg '' @ m @ ''</svg>''"
    unfolding card_text_def m_def h svg_seg7_tail by (simp only: append_assoc)
  have p: "prefix ''<svg '' (card_text stats)"
    unfolding shape by (rule prefixI) (rule refl)
  have "card_text stats = (''<svg '' @ m) @ ''</svg>''"
    unfolding shape by (simp only: append_assoc)
  then have q: "suffix ''</svg>'' (card_text stats)"
    by (rule suffixI)
  have "card_text stats = CHR ''<'' # (''svg '' @ m @ ''</svg'') @ [CHR ''>'']"
    unfolding shape by simp
  then have "TrimSpace (card_text stats) = card_text stats"
    using TrimSpace_id [of "CHR ''<''" "CHR ''>''" "''svg '' @ m @ ''</svg''"]
    by (simp add: isSpace_def)
  with p q show ?thesis
    using generateStatsCardSVG_text [of stats] by simp
qed

section \<open>Well-formedness of the output\<close>

lemma xml_run_append:
  "xml_run s (a @ b) = (case xml_run s a of Inl e \<Rightarrow> Inl e | Inr s' \<Rightarrow> xml_run s' b)"
  by (induction a arbitrary: s) (simp_all split: sum.splits)

lemma xml_run_text:
  "CHR ''<'' \<notin> set cs \<Longrightarrow> es \<noteq> [] \<Longrightarrow> xml_run (XS Content es t as r) cs = Inr (XS Content es t as r)"
  by (induction cs) auto

text \<open>
  Reading the output up to the first number stops in the \<^verbatim>\<open>rect\<close> element of line 269,
  at its second \<^verbatim>\<open>class\<close> attribute.
\<close>

lemma xml_run_rect:
  "xml_run xml_init (svg_seg0 @ ''%'' @ svg_seg1) = Inl (DuplicateAttribute ''class'')"
  by code_simp

text \<open>
  C3. For every card the output is the text \<open>card_text\<close>, which has the six numbers in
  decimal at the places of the six verbs; and for every card the output repeats the
  attribute \<^verbatim>\<open>class\<close> in its \<^verbatim>\<open>rect\<close> element, so it is not a well-formed document.
\<close>

theorem svg_output_repeats_class_attribute:
  "generateStatsCardSVG stats = Some (card_text stats)
   \<and> xml_check (card_text stats) = Inl (DuplicateAttribute ''class'')
   \<and> \<not> xml_well_formed (card_text stats)"
proof -
  define head where "head = svg_seg0 @ ''%'' @ svg_seg1"
  have head: "xml_run xml_init head = Inl (DuplicateAttribute ''class'')"
    unfolding head_def by (rule xml_run_rect)
  have "card_text stats = head @ fmt_d (TotalStars stats) @ svg_seg2
       @ fmt_d (TotalCommits stats) @ svg_seg3 @ fmt_d (TotalPRs stats) @ svg_seg4
       @ fmt_d (TotalIssues stats) @ svg_seg5 @ fmt_d (ContributedTo stats) @ svg_seg6
       @ fmt_d (StatsCard.TotalContributions stats) @ svg_seg7"
    by (simp only: card_text_def head_def append_assoc)
  then have "xml_check (card_text stats) = Inl (DuplicateAttribute ''class'')"
    by (simp only: xml_check_def xml_run_append head sum.case)
  then show ?thesis
    by (simp add: generateStatsCardSVG_text xml_well_formed_def)
qed

text \<open>
  The repeated attribute is the only defect that the reader finds: with the second
  \<^verbatim>\<open>class\<close> taken out of the \<^verbatim>\<open>rect\<close> element, the text is accepted for every card.
\<close>

lemma svg_seg1_single_class:
  \<open>svg_seg1 = take 13 svg_seg1_single_class @ '' class="card-border"'' @ drop 13 svg_seg1_single_class\<close>
  by (simp add: svg_seg1_def svg_seg1_single_class_def)

lemma xml_run_head:
  "xml_run xml_init (svg_seg0 @ ''%'' @ svg_seg1_single_class)
     = Inr (XS Content [''text'', ''g'', ''g'', ''svg''] ''text'' [''font-weight'', ''y'', ''x'', ''class''] 1)"
  by code_simp

lemma xml_run_between:
  "xml_run (XS Content [''text'', ''g'', ''g'', ''svg''] ''text'' [''font-weight'', ''y'', ''x'', ''class''] 1) svg_seg2
     = Inr (XS Content [''text'', ''g'', ''g'', ''svg''] ''text'' [''font-weight'', ''y'', ''x'', ''class''] 1)"
  "xml_run (XS Content [''text'', ''g'', ''g'', ''svg''] ''text'' [''font-weight'', ''y'', ''x'', ''class''] 1) svg_seg3
     = Inr (XS Content [''text'', ''g'', ''g'', ''svg''] ''text'' [''font-weight'', ''y'', ''x'', ''class''] 1)"
  "xml_run (XS Content [''text'', ''g'', ''g'', ''svg''] ''text'' [''font-weight'', ''y'', ''x'', ''class''] 1) svg_seg4
     = Inr (XS Content [''text'', ''g'', ''g'', ''svg''] ''text'' [''font-weight'', ''y'', ''x'', ''class''] 1)"
  "xml_run (XS Content [''text'', ''g'', ''g'', ''svg''] ''text'' [''font-weight'', ''y'', ''x'', ''class''] 1) svg_seg5
     = Inr (XS Content [''text'', ''g'', ''g'', ''svg''] ''text'' [''font-weight'', ''y'', ''x'', ''class''] 1)"
  "xml_run (XS Content [''text'', ''g'', ''g'', ''svg''] ''text'' [''font-weight'', ''y'', ''x'', ''class''] 1) svg_seg6
     = Inr (XS Content [''text'', ''g'', ''g'', ''svg''] ''text'' [''font-weight'', ''y'', ''x'', ''class''] 1)"
  by code_simp+

lemma xml_run_tail:
  "xml_run (XS Content [''text'', ''g'', ''g'', ''svg''] ''text'' [''font-weight'', ''y'', ''x'', ''class''] 1) svg_seg7
     = Inr (XS Content [] ''text'' [''font-weight'', ''y'', ''x'', ''class''] 1)"
  by code_simp

lemma xml_run_number:
  "xml_run (XS Content [''text'', ''g'', ''g'', ''svg''] ''text'' [''font-weight'', ''y'', ''x'', ''class''] 1) (fmt_d v)
     = Inr (XS Content [''text'', ''g'', ''g'', ''svg''] ''text'' [''font-weight'', ''y'', ''x'', ''class''] 1)"
  by (rule xml_run_text) (simp_all add: fmt_d_no_markup)

lemma single_class_well_formed: "xml_well_formed (card_text_single_class stats)"
proof -
  define head where "head = svg_seg0 @ ''%'' @ svg_seg1_single_class"
  have head: "xml_run xml_init head
     = Inr (XS Content [''text'', ''g'', ''g'', ''svg''] ''text'' [''font-weight'', ''y'', ''x'', ''class''] 1)"
    unfolding head_def by (rule xml_run_head)
  have "card_text_single_class stats = head @ fmt_d (TotalStars stats) @ svg_seg2
       @ fmt_d (TotalCommits stats) @ svg_seg3 @ fmt_d (TotalPRs stats) @ svg_seg4
       @ fmt_d (TotalIssues stats) @ svg_seg5 @ fmt_d (ContributedTo stats) @ svg_seg6
       @ fmt_d (StatsCard.TotalContributions stats) @ svg_seg7"
    by (simp only: card_text_single_class_def head_def append_assoc)
  then have "xml_check (card_text_single_class stats)
       = Inr (XS Content [] ''text'' [''font-weight'', ''y'', ''x'', ''class''] 1)"
    by (simp only: xml_check_def xml_run_append head xml_run_between xml_run_number
        xml_run_tail sum.case)
  then show ?thesis
    by (simp add: xml_well_formed_def)
qed

section \<open>The retry loop\<close>

lemma Retry_Suc:
  "Retry (Suc fuel) ctx jitter op b now n =
     (case fst (op now) of
        Inr stats \<Rightarrow> Some \<lparr>outcome = Inr stats, returned_at = snd (op now), attempts = Suc n\<rparr>
      | Inl err \<Rightarrow>
          (case fst (NextBackOff (jitter n) b (snd (op now))) of
             None \<Rightarrow>
               Some \<lparr>outcome = Inl (if ctx_Done ctx (snd (op now)) then ContextError ''context canceled'' else err),
                     returned_at = snd (op now), attempts = Suc n\<rparr>
           | Some next \<Rightarrow>
               (case ctx of
                  None \<Rightarrow>
                    Retry fuel ctx jitter op (snd (NextBackOff (jitter n) b (snd (op now))))
                      (snd (op now) + next) (Suc n)
                | Some c \<Rightarrow>
                    if c \<le> snd (op now) + next
                    then Some \<lparr>outcome = Inl (ContextError ''context canceled''),
                               returned_at = max c (snd (op now)), attempts = Suc n\<rparr>
                    else Retry fuel ctx jitter op (snd (NextBackOff (jitter n) b (snd (op now))))
                           (snd (op now) + next) (Suc n))))"
  by (simp add: Let_def is_PermanentError_def split: sum.split)

lemma Retry_step:
  "0 < fuel \<Longrightarrow>
   Retry fuel ctx jitter op b now n =
     (case fst (op now) of
        Inr stats \<Rightarrow> Some \<lparr>outcome = Inr stats, returned_at = snd (op now), attempts = Suc n\<rparr>
      | Inl err \<Rightarrow>
          (case fst (NextBackOff (jitter n) b (snd (op now))) of
             None \<Rightarrow>
               Some \<lparr>outcome = Inl (if ctx_Done ctx (snd (op now)) then ContextError ''context canceled'' else err),
                     returned_at = snd (op now), attempts = Suc n\<rparr>
           | Some next \<Rightarrow>
               (case ctx of
                  None \<Rightarrow>
                    Retry (fuel - 1) ctx jitter op (snd (NextBackOff (jitter n) b (snd (op now))))
                      (snd (op now) + next) (Suc n)
                | Some c \<Rightarrow>
                    if c \<le> snd (op now) + next
                    then Some \<lparr>outcome = Inl (ContextError ''context canceled''),
                               returned_at = max c (snd (op now)), attempts = Suc n\<rparr>
                    else Retry (fuel - 1) ctx jitter op (snd (NextBackOff (jitter n) b (snd (op now))))
                           (snd (op now) + next) (Suc n))))"
proof (cases fuel)
  case 0
  then show "0 < fuel \<Longrightarrow> ?thesis" by simp
next
  case (Suc m)
  then show "0 < fuel \<Longrightarrow> ?thesis"
    by (simp only: Retry_Suc diff_Suc_1)
qed

lemma Retry_blind:
  assumes "\<forall>t. snd (op1 t) = snd (op2 t)"
    and "\<forall>t. same_shape (fst (op1 t)) (fst (op2 t))"
  shows "rel_option same_run (Retry fuel ctx jitter op1 b now n) (Retry fuel ctx jitter op2 b now n)"
proof (induction fuel arbitrary: b now n)
  case 0
  show ?case by simp
next
  case (Suc fuel)
  have t: "snd (op1 now) = snd (op2 now)"
    using assms(1) by simp
  have sh: "same_shape (fst (op1 now)) (fst (op2 now))"
    using assms(2) by simp
  show ?case
  proof (cases "fst (op1 now)")
    case (Inr x)
    with sh have "fst (op2 now) = Inr x"
      by (auto simp: same_shape_def split: sum.splits)
    with Inr t show ?thesis
      by (simp add: Let_def is_PermanentError_def same_run_def same_shape_def)
  next
    case (Inl e1)
    with sh obtain e2 where e2: "fst (op2 now) = Inl e2"
      by (auto simp: same_shape_def split: sum.splits)
    show ?thesis
    proof (cases "fst (NextBackOff (jitter n) b (snd (op2 now)))")
      case None
      with Inl e2 t show ?thesis
        by (simp add: Let_def is_PermanentError_def same_run_def same_shape_def)
    next
      case (Some w)
      show ?thesis
      proof (cases ctx)
        case None
        with Some Inl e2 t Suc.IH show ?thesis
          by (simp add: Let_def is_PermanentError_def)
      next
        case (Some c)
        with \<open>fst (NextBackOff (jitter n) b (snd (op2 now))) = Some w\<close> Inl e2 t Suc.IH
        show ?thesis
          by (simp add: Let_def is_PermanentError_def same_run_def same_shape_def)
      qed
    qed
  qed
qed


lemma fetchStats_cong:
  "Do (build_request config) = Do' (build_request config)
     \<Longrightarrow> fetchStats parse Do config = fetchStats parse Do' config"
  by (simp add: fetchStats_def json_Marshal_def NewRequestWithContext_def)

lemma client_Do_constant:
  "client_Do ctx (constant_net rt 0) now req
     = (if ctx_Done ctx now then DoFailed ''context canceled'' else rt, now)"
  by (simp add: client_Do_def constant_net_def ctx_Done_def clientTimeout_def Second_def
      Millisecond_def split: option.split)

lemma operation_constant:
  "operation parse (constant_net rt 0) ctx config
     = (\<lambda>now. (fetchStats parse (reply (if ctx_Done ctx now then DoFailed ''context canceled'' else rt)) config,
               now))"
proof
  fix now
  have "fetchStats parse (\<lambda>req. fst (client_Do ctx (constant_net rt 0) now req)) config
      = fetchStats parse (reply (if ctx_Done ctx now then DoFailed ''context canceled'' else rt)) config"
    by (rule fetchStats_cong) (simp add: client_Do_constant reply_def)
  then show "operation parse (constant_net rt 0) ctx config now
      = (fetchStats parse (reply (if ctx_Done ctx now then DoFailed ''context canceled'' else rt)) config, now)"
    by (simp add: operation_def client_Do_constant)
qed

lemma operation_down:
  "operation parse (constant_net (DoFailed m) 0) ctx config
     = (\<lambda>now. (Inl (ExecuteRequest (if ctx_Done ctx now then ''context canceled'' else m)), now))"
  by (simp add: operation_constant fetchStats_DoFailed reply_def fun_eq_iff)

lemma operation_graphql:
  "operation sample_parse (constant_net (Completed (plain_200 body_errors_only)) 0) Background config
     = (\<lambda>now. (Inl (GraphQLErrors [\<lparr>Message = ''boom'', Type = []\<rparr>]), now))"
  by (simp add: operation_constant fetchStats_Completed reply_def fun_eq_iff Background_def
      ctx_Done_def plain_200_def no_headers_Get Unmarshal_def sample_parse_simps decode_errors_only)

text \<open>
  The schedule without jitter when every attempt fails at once: the waits are 0.5 s,
  0.75 s, 1.125 s and so on; after the twelfth attempt, 85.5 s after the start, the
  next wait of 43.2 s would pass the budget of two minutes, and the loop stops.
\<close>

lemma Retry_all_failing:
  "Retry 12 Background no_jitter (\<lambda>now. (Inl (err now), now))
     (Reset ((NewExponentialBackOff 0)\<lparr>MaxElapsedTime := 2 * Minute\<rparr>) 0) 0 0
   = Some \<lparr>outcome = Inl (err 85497558592), returned_at = 85497558592, attempts = 12\<rparr>"
  by (simp add: Retry_step NextBackOff_def incrementCurrentInterval_def no_jitter_def Reset_def
      NewExponentialBackOff_def Minute_def Second_def Millisecond_def Let_def ctx_Done_def
      Background_def)

lemma fetchStatsWithRetry_down:
  "fetchStatsWithRetry 12 parse (constant_net (DoFailed m) 0) no_jitter ctx 0 config
   = Some \<lparr>outcome = Inl (FailedAfterRetries
        (ExecuteRequest (if ctx_Done ctx 85497558592 then ''context canceled'' else m))),
       returned_at = 85497558592, attempts = 12\<rparr>"
  by (simp add: fetchStatsWithRetry_def operation_down Retry_all_failing)

text \<open>
  C5. The caller's context is cancelled 100 ms after the start, in the middle of the
  first wait of 500 ms. The wait is not cut short: the loop goes on, each further
  attempt fails at once with the cancellation error of the HTTP client, and the
  function returns after 85.5 s and twelve attempts.
\<close>

theorem cancellation_does_not_end_the_backoff_wait:
  "fetchStatsWithRetry 12 sample_parse (constant_net (DoFailed ''connection refused'') 0) no_jitter
     (Some (100 * Millisecond)) 0 sample_config
   = Some \<lparr>outcome = Inl (FailedAfterRetries (ExecuteRequest ''context canceled'')),
            returned_at = 85497558592, attempts = 12\<rparr>"
  by (simp add: fetchStatsWithRetry_down ctx_Done_def Millisecond_def)

text \<open>
  C7. Take two runs of \<^verbatim>\<open>fetchStatsWithRetry\<close> whose attempts end at the same instants
  and with results of the same shape: where one fails the other fails too, with an
  error of whatever kind. Then the two runs make the same number of attempts, return
  at the same instant, and both fail or both return the same card. The loop never
  looks at the kind of the error.
\<close>

theorem retry_is_blind_to_the_error_kind:
  assumes "\<forall>t. snd (operation parse1 net1 ctx1 config1 t) = snd (operation parse2 net2 ctx2 config2 t)"
    and "\<forall>t. same_shape (fst (operation parse1 net1 ctx1 config1 t))
               (fst (operation parse2 net2 ctx2 config2 t))"
  shows "rel_option same_run
           (fetchStatsWithRetry fuel parse1 net1 jitter ctx1 now config1)
           (fetchStatsWithRetry fuel parse2 net2 jitter ctx2 now config2)"
proof -
  let ?b = "Reset ((NewExponentialBackOff now)\<lparr>MaxElapsedTime := 2 * Minute\<rparr>) now"
  have "rel_option same_run
          (Retry fuel Background jitter (operation parse1 net1 ctx1 config1) ?b now 0)
          (Retry fuel Background jitter (operation parse2 net2 ctx2 config2) ?b now 0)"
    using assms by (rule Retry_blind)
  then show ?thesis
    by (auto simp: fetchStatsWithRetry_def Let_def same_run_def same_shape_def option.rel_sel
        split: option.splits sum.splits)
qed

text \<open>
  The witness: a server that answers every request with a GraphQL error list, and a
  network on which every request fails in transport. Both runs take twelve attempts
  and 85.5 s.
\<close>

theorem retry_is_blind_to_the_error_kind_witness:
  "fetchStatsWithRetry 12 sample_parse (constant_net (DoFailed ''connection refused'') 0) no_jitter
     Background 0 sample_config
   = Some \<lparr>outcome = Inl (FailedAfterRetries (ExecuteRequest ''connection refused'')),
            returned_at = 85497558592, attempts = 12\<rparr>
   \<and> (\<exists>r. fetchStatsWithRetry 12 sample_parse (constant_net (Completed (plain_200 body_errors_only)) 0)
              no_jitter Background 0 sample_config = Some r
          \<and> attempts r = 12 \<and> returned_at r = 85497558592 \<and> isl (outcome r))"
proof -
  let ?down = "constant_net (DoFailed ''connection refused'') 0"
  let ?gql = "constant_net (Completed (plain_200 body_errors_only)) 0"
  have down: "fetchStatsWithRetry 12 sample_parse ?down no_jitter Background 0 sample_config
      = Some \<lparr>outcome = Inl (FailedAfterRetries (ExecuteRequest ''connection refused'')),
            returned_at = 85497558592, attempts = 12\<rparr>"
    by (simp add: fetchStatsWithRetry_down ctx_Done_def Background_def)
  have "rel_option same_run
          (fetchStatsWithRetry 12 sample_parse ?down no_jitter Background 0 sample_config)
          (fetchStatsWithRetry 12 sample_parse ?gql no_jitter Background 0 sample_config)"
    by (rule retry_is_blind_to_the_error_kind)
      (simp_all add: operation_down operation_graphql same_shape_def)
  with down show ?thesis
    by (auto simp: option.rel_sel same_run_def same_shape_def isl_def split: sum.splits)
qed

section \<open>Configuration\<close>

lemma loadConfig_no_token:
  "os_Getenv env ''GITHUB_TOKEN'' = []
     \<Longrightarrow> loadConfig env = Inl ''GITHUB_TOKEN environment variable is required''"
  by (simp add: loadConfig_def)

lemma loadConfig_default_username:
  "os_Getenv env ''GITHUB_TOKEN'' \<noteq> [] \<Longrightarrow> os_Getenv env ''GITHUB_USERNAME'' = []
     \<Longrightarrow> \<exists>config. loadConfig env = Inr config \<and> Username config = ''gangwgr''"
  by (simp add: loadConfig_def getEnv_def defaultUsername_def)

text \<open>
  C6, as amended. Without a token (not set, or set to the empty string) the run ends
  in \<^verbatim>\<open>loadConfig\<close> with its own fatal message, which is not the one of a failed fetch,
  and no request has been made. Without a user name the configuration is accepted:
  the name defaults to \<^verbatim>\<open>gangwgr\<close> (\<open>absent_username_is_accepted_counterexample\<close>).
\<close>

theorem missing_token_is_rejected_before_any_request:
  "(os_Getenv env ''GITHUB_TOKEN'' = [] \<longrightarrow>
      main fuel env parse net jitter fs
        = Some (ConfigFatal ''GITHUB_TOKEN environment variable is required'', 0)
      \<and> ConfigFatal ''GITHUB_TOKEN environment variable is required'' \<noteq> FetchFatal e)
   \<and> (os_Getenv env ''GITHUB_TOKEN'' \<noteq> [] \<and> os_Getenv env ''GITHUB_USERNAME'' = [] \<longrightarrow>
        (\<exists>config. loadConfig env = Inr config \<and> Username config = ''gangwgr''))"
  using loadConfig_default_username [of env]
  by (simp add: main_def loadConfig_no_token)

lemma env_simps:
  "os_Getenv env_user_only ''GITHUB_TOKEN'' = []"
  "os_Getenv env_token_only ''GITHUB_TOKEN'' = ''test-token''"
  "os_Getenv env_token_only ''GITHUB_USERNAME'' = []"
  "os_Getenv env_token_only ''OUTPUT_DIR'' = []"
  "os_Getenv env_token_only ''OUTPUT_FILE'' = []"
  "os_Getenv env_token_only ''VERBOSE'' = []"
  by (simp_all add: os_Getenv_def env_user_only_def env_token_only_def)

theorem missing_token_is_rejected_before_any_request_witness:
  "main 12 env_user_only sample_parse (constant_net (Completed (plain_200 ''{}'')) 0) no_jitter fs_ok
     = Some (ConfigFatal ''GITHUB_TOKEN environment variable is required'', 0)
   \<and> (\<exists>config. loadConfig env_token_only = Inr config \<and> Username config = ''gangwgr'')"
  using missing_token_is_rejected_before_any_request
    [of env_user_only 12 sample_parse "constant_net (Completed (plain_200 ''{}'')) 0" no_jitter fs_ok
        "ExecuteRequest []"]
    missing_token_is_rejected_before_any_request
    [of env_token_only 12 sample_parse "constant_net (Completed (plain_200 ''{}'')) 0" no_jitter fs_ok
        "ExecuteRequest []"]
  by (simp add: env_simps)

lemma loadConfig_token_only:
  "loadConfig env_token_only
     = Inr \<lparr>Username = ''gangwgr'', Token = ''test-token'', OutputDir = ''output'',
            OutputFile = ''stats-card.svg'', Verbose = False\<rparr>"
  by (simp add: loadConfig_def getEnv_def getEnvBool_def env_simps defaultUsername_def
      defaultOutputDir_def)

theorem absent_username_is_accepted_counterexample:
  "env_token_only ''GITHUB_USERNAME'' = None
   \<and> loadConfig env_token_only
       = Inr \<lparr>Username = ''gangwgr'', Token = ''test-token'', OutputDir = ''output'',
              OutputFile = ''stats-card.svg'', Verbose = False\<rparr>
   \<and> main 1 env_token_only sample_parse (constant_net (Completed (plain_200 ''{}'')) 0) no_jitter fs_ok
       = Some (Generated ''output/stats-card.svg'' (card_text zero_StatsCard), 1)"
proof -
  have op: "operation sample_parse (constant_net (Completed (plain_200 ''{}'')) 0) Background config 0
      = (Inr zero_StatsCard, 0)" for config
    by (simp add: operation_constant fetchStats_Completed reply_def Background_def ctx_Done_def
        plain_200_def no_headers_Get Unmarshal_def sample_parse_simps decode_struct_def
        zero_GitHubResponse_fields statsCard_zero)
  have "fetchStatsWithRetry 1 sample_parse (constant_net (Completed (plain_200 ''{}'')) 0) no_jitter
          Background 0 config
      = Some \<lparr>outcome = Inr zero_StatsCard, returned_at = 0, attempts = 1\<rparr>" for config
    by (simp add: fetchStatsWithRetry_def Retry_step op)
  moreover have "env_token_only ''GITHUB_USERNAME'' = None"
    by (simp add: env_token_only_def)
  ultimately show ?thesis
    by (simp add: main_def loadConfig_token_only generateStatsCardSVG_text ensureOutputDir_def
        fs_ok_def)
qed

end
